theory Spec2Isabelle
  imports Main "HOL-Library.Word"
begin

unbundle bit_operations_syntax

section \<open>Errors and the random source\<close>

text \<open>
  Every error return and panic of \<^verbatim>\<open>main.go\<close> is a value of this type.
  \<^item> \<open>InvalidLength\<close>: "code verifier length must be between 43 and 128 characters";
  \<^item> \<open>EmptyInput\<close>: "error: empty codeVerifier string";
  \<^item> \<open>RandFailure\<close>: the error returned by \<^verbatim>\<open>rand.Int\<close>;
  \<^item> \<open>ParseError\<close>: the \<^verbatim>\<open>*time.ParseError\<close> of \<^verbatim>\<open>time.Parse\<close>;
  \<^item> \<open>NilPointer\<close>: the run-time panic of a method called through a nil pointer.
\<close>

datatype error = InvalidLength | EmptyInput | RandFailure | ParseError | NilPointer

text \<open>
  \<^verbatim>\<open>crypto/rand\<close> is the environment. The reader is a list of draws, consumed from
  the front: \<open>Some n\<close> is raw entropy, \<open>None\<close> a failing read, and the exhausted
  reader fails as well. \<^verbatim>\<open>rand.Int(rand.Reader, max)\<close> returns a value in
  \<open>[0, max)\<close> or the reader's error.
\<close>

type_synonym rand_src = "nat option list"

fun rand_Int :: "rand_src \<Rightarrow> nat \<Rightarrow> (error + nat) \<times> rand_src" where
  "rand_Int [] m = (Inl RandFailure, [])"
| "rand_Int (None # rs) m = (Inl RandFailure, rs)"
| "rand_Int (Some n # rs) m = (Inr (n mod m), rs)"

text \<open>The reader delivers \<open>k\<close> draws without failing.\<close>

definition delivers :: "nat \<Rightarrow> rand_src \<Rightarrow> bool" where
  "delivers k rs \<longleftrightarrow> k \<le> length rs \<and> list_all (\<lambda>d. d \<noteq> None) (take k rs)"

section \<open>Verifier and challenge generator\<close>

definition rfc3986Chars :: string where
  "rfc3986Chars = ''ABCDEFGHIJKLMNOPQRSTUVWXYZabcdefghijklmnopqrstuvwxyz0123456789-._~''"

text \<open>
  The loop \<^verbatim>\<open>for i := range verifier\<close> of \<^verbatim>\<open>generateCodeVerifier\<close>: one draw
  per position, left to right; the first failing draw returns its error.
\<close>

fun verifier_loop :: "nat \<Rightarrow> rand_src \<Rightarrow> (error + string) \<times> rand_src" where
  "verifier_loop 0 rs = (Inr [], rs)"
| "verifier_loop (Suc k) rs =
     (case rand_Int rs (length rfc3986Chars) of
        (Inl e, rs') \<Rightarrow> (Inl e, rs')
      | (Inr i, rs') \<Rightarrow>
          (case verifier_loop k rs' of
             (Inl e, rs'') \<Rightarrow> (Inl e, rs'')
           | (Inr s, rs'') \<Rightarrow> (Inr (rfc3986Chars ! i # s), rs'')))"

definition generateCodeVerifier :: "int \<Rightarrow> rand_src \<Rightarrow> (error + string) \<times> rand_src" where
  "generateCodeVerifier len rs =
     (if len < 43 \<or> len > 128 then (Inl InvalidLength, rs)
      else verifier_loop (nat len) rs)"

text \<open>
  \<^verbatim>\<open>crypto/sha256\<close> (FIPS 180-4) on 32-bit words, as \<^verbatim>\<open>sha256.Sum256\<close> computes
  it: padding with \<open>0x80\<close>, zeros and the 64-bit big-endian bit length, then the
  block function over 64-byte blocks.
\<close>

type_synonym byte = "8 word"
type_synonym u32 = "32 word"

definition rotr :: "nat \<Rightarrow> u32 \<Rightarrow> u32" where
  "rotr n x = drop_bit n x OR push_bit (32 - n) x"

definition Ch :: "u32 \<Rightarrow> u32 \<Rightarrow> u32 \<Rightarrow> u32" where
  "Ch x y z = (x AND y) XOR (NOT x AND z)"

definition Maj :: "u32 \<Rightarrow> u32 \<Rightarrow> u32 \<Rightarrow> u32" where
  "Maj x y z = (x AND y) XOR (x AND z) XOR (y AND z)"

definition bsig0 :: "u32 \<Rightarrow> u32" where
  "bsig0 x = rotr 2 x XOR rotr 13 x XOR rotr 22 x"

definition bsig1 :: "u32 \<Rightarrow> u32" where
  "bsig1 x = rotr 6 x XOR rotr 11 x XOR rotr 25 x"

definition ssig0 :: "u32 \<Rightarrow> u32" where
  "ssig0 x = rotr 7 x XOR rotr 18 x XOR drop_bit 3 x"

definition ssig1 :: "u32 \<Rightarrow> u32" where
  "ssig1 x = rotr 17 x XOR rotr 19 x XOR drop_bit 10 x"

definition sha256_K :: "u32 list" where
  "sha256_K =
    [1116352408, 1899447441, 3049323471, 3921009573, 961987163, 1508970993, 2453635748,
     2870763221, 3624381080, 310598401, 607225278, 1426881987, 1925078388, 2162078206,
     2614888103, 3248222580, 3835390401, 4022224774, 264347078, 604807628, 770255983,
     1249150122, 1555081692, 1996064986, 2554220882, 2821834349, 2952996808, 3210313671,
     3336571891, 3584528711, 113926993, 338241895, 666307205, 773529912, 1294757372,
     1396182291, 1695183700, 1986661051, 2177026350, 2456956037, 2730485921, 2820302411,
     3259730800, 3345764771, 3516065817, 3600352804, 4094571909, 275423344, 430227734,
     506948616, 659060556, 883997877, 958139571, 1322822218, 1537002063, 1747873779,
     1955562222, 2024104815, 2227730452, 2361852424, 2428436474, 2756734187, 3204031479,
     3329325298]"

definition sha256_init :: "u32 list" where
  "sha256_init =
    [1779033703, 3144134277, 1013904242, 2773480762, 1359893119, 2600822924, 528734635,
     1541459225]"

text \<open>The message schedule: 16 words of the block, extended to 64.\<close>

fun schedule :: "nat \<Rightarrow> u32 list \<Rightarrow> u32 list" where
  "schedule 0 w = w"
| "schedule (Suc n) w =
     schedule n (w @ [ssig1 (w ! (length w - 2)) + w ! (length w - 7)
                      + ssig0 (w ! (length w - 15)) + w ! (length w - 16)])"

fun sha_round :: "u32 \<times> u32 \<Rightarrow> u32 list \<Rightarrow> u32 list" where
  "sha_round (k, w) [a, b, c, d, e, f, g, h] =
     (let t1 = h + bsig1 e + Ch e f g + k + w;
          t2 = bsig0 a + Maj a b c
      in [t1 + t2, a, b, c, d + t1, e, f, g])"
| "sha_round (k, w) st = st"

definition sha_block :: "u32 list \<Rightarrow> u32 list \<Rightarrow> u32 list" where
  "sha_block hs ws = map2 (+) hs (fold sha_round (zip sha256_K (schedule 48 ws)) hs)"

fun be32 :: "byte list \<Rightarrow> u32" where
  "be32 [a, b, c, d] =
     push_bit 24 (ucast a) OR push_bit 16 (ucast b) OR push_bit 8 (ucast c) OR ucast d"
| "be32 bs = 0"

definition put32 :: "u32 \<Rightarrow> byte list" where
  "put32 w = [ucast (drop_bit 24 w), ucast (drop_bit 16 w), ucast (drop_bit 8 w), ucast w]"

definition put64 :: "64 word \<Rightarrow> byte list" where
  "put64 w = [ucast (drop_bit 56 w), ucast (drop_bit 48 w), ucast (drop_bit 40 w),
              ucast (drop_bit 32 w), ucast (drop_bit 24 w), ucast (drop_bit 16 w),
              ucast (drop_bit 8 w), ucast w]"

fun chunks :: "nat \<Rightarrow> nat \<Rightarrow> 'a list \<Rightarrow> 'a list list" where
  "chunks 0 k xs = []"
| "chunks (Suc n) k xs = take k xs # chunks n k (drop k xs)"

definition sha_pad :: "byte list \<Rightarrow> byte list" where
  "sha_pad m =
     (let r = length m mod 64;
          t = (if r < 56 then 56 - r else 64 + 56 - r)
      in m @ [0x80] @ replicate (t - 1) 0 @ put64 (push_bit 3 (word_of_nat (length m))))"

definition sha256_Sum256 :: "byte list \<Rightarrow> byte list" where
  "sha256_Sum256 m =
     (let p = sha_pad m;
          hs = fold (\<lambda>blk hs. sha_block hs (map be32 (chunks 16 4 blk)))
                 (chunks (length p div 64) 64 p) sha256_init
      in concat (map put32 hs))"

text \<open>
  \<^verbatim>\<open>base64.URLEncoding.WithPadding(base64.NoPadding).EncodeToString\<close>: three bytes
  give four characters; a rest of one or two bytes gives two or three, with no padding.
\<close>

definition encodeURL :: string where
  "encodeURL = ''ABCDEFGHIJKLMNOPQRSTUVWXYZabcdefghijklmnopqrstuvwxyz0123456789-_''"

definition enc6 :: "u32 \<Rightarrow> nat \<Rightarrow> char" where
  "enc6 val sh = encodeURL ! unat (drop_bit sh val AND 0x3F)"

fun EncodeToString :: "byte list \<Rightarrow> string" where
  "EncodeToString (a # b # c # rest) =
     (let val = push_bit 16 (ucast a) OR push_bit 8 (ucast b) OR ucast c
      in [enc6 val 18, enc6 val 12, enc6 val 6, enc6 val 0] @ EncodeToString rest)"
| "EncodeToString [a, b] =
     (let val = push_bit 16 (ucast a) OR push_bit 8 (ucast b)
      in [enc6 val 18, enc6 val 12, enc6 val 6])"
| "EncodeToString [a] =
     (let val = push_bit 16 (ucast a) in [enc6 val 18, enc6 val 12])"
| "EncodeToString [] = []"

definition bytes_of :: "string \<Rightarrow> byte list" where
  "bytes_of s = map of_char s"

definition generateCodeChallenge :: "string \<Rightarrow> error + string" where
  "generateCodeChallenge codeVerifier =
     (if codeVerifier = [] then Inl EmptyInput
      else Inr (EncodeToString (sha256_Sum256 (bytes_of codeVerifier))))"

section \<open>Anti-forgery token and authorization URL\<close>

text \<open>
  The process-wide variables of \<^verbatim>\<open>main.go\<close> that the handshake reads and writes.
  The server handle and the \<^verbatim>\<open>done\<close> channel are effects (see \<open>event\<close> below).
\<close>

record session =
  codeVerifier :: string
  codeChallenge :: string
  stateAuth :: string
  stateRedir :: string
  token :: string

text \<open>The fields of \<^verbatim>\<open>oauth2.Config\<close> that the program reads.\<close>

record Config =
  ClientID :: string
  ClientSecret :: string
  RedirectURL :: string
  Scopes :: "string list"

definition charset :: string where
  "charset = ''abcdefghijklmnopqrstuvwxyz0123456789ABCDEFGHIJKLMNOPQRSTUVWXYZ''"

text \<open>
  The loop of \<^verbatim>\<open>generateRandomString\<close>; a failing draw is \<^verbatim>\<open>panic(err)\<close>, here
  the \<open>Inl\<close> result.
\<close>

fun random_loop :: "nat \<Rightarrow> rand_src \<Rightarrow> (error + string) \<times> rand_src" where
  "random_loop 0 rs = (Inr [], rs)"
| "random_loop (Suc k) rs =
     (case rand_Int rs (length charset) of
        (Inl e, rs') \<Rightarrow> (Inl e, rs')
      | (Inr n, rs') \<Rightarrow>
          (case random_loop k rs' of
             (Inl e, rs'') \<Rightarrow> (Inl e, rs'')
           | (Inr s, rs'') \<Rightarrow> (Inr (charset ! n # s), rs'')))"

definition generateRandomString ::
  "session \<Rightarrow> rand_src \<Rightarrow> (error + string \<times> session) \<times> rand_src" where
  "generateRandomString s rs =
     (case random_loop 32 rs of
        (Inl e, rs') \<Rightarrow> (Inl e, rs')
      | (Inr result, rs') \<Rightarrow> (Inr (result, s\<lparr>stateAuth := result\<rparr>), rs'))"

definition scopeStringBuilder :: "string list \<Rightarrow> string" where
  "scopeStringBuilder scopes =
     (let scopeString = foldl (\<lambda>acc s. acc @ s @ ''+'') [] scopes
      in if scopeString \<noteq> [] \<and> last scopeString = CHR ''+'' then butlast scopeString
         else scopeString)"

text \<open>
  \<^verbatim>\<open>fmt.Sprintf\<close> with \<^verbatim>\<open>%s\<close> verbs: every argument is inserted as it is.
\<close>

definition authURL :: "string \<Rightarrow> string \<Rightarrow> string \<Rightarrow> string \<Rightarrow> string \<Rightarrow> string" where
  "authURL clientId redirectUri scope challenge state =
     ''https://www.fitbit.com/oauth2/authorize?response_type=token&client_id='' @ clientId
     @ ''&redirect_uri='' @ redirectUri @ ''&scope='' @ scope
     @ ''&code_challenge='' @ challenge @ ''&code_challenge_method='' @ ''S256''
     @ ''&state='' @ state"

definition getAuthURL ::
  "string \<Rightarrow> Config \<Rightarrow> session \<Rightarrow> rand_src \<Rightarrow> (error + string \<times> session) \<times> rand_src" where
  "getAuthURL challenge ouathCfg s rs =
     (case generateRandomString s rs of
        (Inl e, rs') \<Rightarrow> (Inl e, rs')
      | (Inr (state, s'), rs') \<Rightarrow>
          (Inr (authURL (ClientID ouathCfg) (RedirectURL ouathCfg)
                  (scopeStringBuilder (Scopes ouathCfg)) challenge state, s'), rs'))"

text \<open>
  The words of the specification, to compare with: scopes joined with \<open>+\<close>, and the
  URL encoding of a query component (what \<^verbatim>\<open>url.QueryEscape\<close> produces: unreserved
  characters stay, a space becomes \<open>+\<close>, every other byte becomes \<open>%XX\<close>).
\<close>

fun joinPlus :: "string list \<Rightarrow> string" where
  "joinPlus [] = []"
| "joinPlus [s] = s"
| "joinPlus (s # t # ss) = s @ ''+'' @ joinPlus (t # ss)"

definition upperhex :: string where
  "upperhex = ''0123456789ABCDEF''"

definition escapeByte :: "char \<Rightarrow> string" where
  "escapeByte c =
     (if c \<in> set rfc3986Chars then [c]
      else if c = CHR '' '' then ''+''
      else [CHR ''%'', upperhex ! (of_char c div 16), upperhex ! (of_char c mod 16)])"

definition urlEncode :: "string \<Rightarrow> string" where
  "urlEncode s = concat (map escapeByte s)"

definition spec_authURL :: "string \<Rightarrow> Config \<Rightarrow> string \<Rightarrow> string" where
  "spec_authURL challenge cfg state =
     authURL (urlEncode (ClientID cfg)) (urlEncode (RedirectURL cfg))
       (joinPlus (Scopes cfg)) challenge state"

text \<open>
  Reading the query parameters back, as the repository's test does with
  \<^verbatim>\<open>url.Parse(...).Query()\<close>: the text after the first \<open>?\<close>, split at \<open>&\<close>, each
  part split at its first \<open>=\<close>, and both sides unescaped (\<open>+\<close> is a space, \<open>%XX\<close> a
  byte). None of the URLs below holds a \<open>#\<close> or a malformed escape.
\<close>

fun splitOn :: "char \<Rightarrow> string \<Rightarrow> string list" where
  "splitOn sep [] = [[]]"
| "splitOn sep (c # cs) =
     (if c = sep then [] # splitOn sep cs
      else (case splitOn sep cs of [] \<Rightarrow> [[c]] | w # ws \<Rightarrow> (c # w) # ws))"

definition unhex :: "char \<Rightarrow> nat option" where
  "unhex c =
     (let n = (of_char c :: nat)
      in if 48 \<le> n \<and> n \<le> 57 then Some (n - 48)
         else if 97 \<le> n \<and> n \<le> 102 then Some (n - 97 + 10)
         else if 65 \<le> n \<and> n \<le> 70 then Some (n - 65 + 10)
         else None)"

fun unescape :: "string \<Rightarrow> string option" where
  "unescape [] = Some []"
| "unescape (c # cs) =
     (if c = CHR ''%'' then
        (case cs of
           h # l # rest \<Rightarrow>
             (case (unhex h, unhex l, unescape rest) of
                (Some a, Some b, Some r) \<Rightarrow> Some (char_of (a * 16 + b) # r)
              | _ \<Rightarrow> None)
         | _ \<Rightarrow> None)
      else (case unescape cs of
              None \<Rightarrow> None
            | Some r \<Rightarrow> Some ((if c = CHR ''+'' then CHR '' '' else c) # r)))"

definition parsePair :: "string \<Rightarrow> (string \<times> string) option" where
  "parsePair kv =
     (let k = takeWhile (\<lambda>c. c \<noteq> CHR ''='') kv;
          v = drop 1 (dropWhile (\<lambda>c. c \<noteq> CHR ''='') kv)
      in case (unescape k, unescape v) of
           (Some k', Some v') \<Rightarrow> Some (k', v')
         | _ \<Rightarrow> None)"

definition queryParams :: "string \<Rightarrow> (string \<times> string) list" where
  "queryParams url =
     List.map_filter parsePair
       (filter (\<lambda>kv. kv \<noteq> [])
          (splitOn (CHR ''&'') (drop 1 (dropWhile (\<lambda>c. c \<noteq> CHR ''?'') url))))"

section \<open>Redirect listener: the completion handler\<close>

text \<open>
  What a handler does beyond returning: console output, the response body, the document
  handed to the serializer and to \<^verbatim>\<open>saveToFile\<close>, and the server shutdown with the
  \<^verbatim>\<open>done\<close> signal.
\<close>

datatype 'doc event =
    Println string
  | Write string
  | PrintDoc 'doc
  | SaveToFile string 'doc
  | Shutdown

text \<open>
  \<^verbatim>\<open>r.URL.Query().Get(key)\<close>: the first value of the key among the parsed query
  pairs, the empty string when the key is absent.
\<close>

type_synonym request = "(string \<times> string) list"

definition query_Get :: "request \<Rightarrow> string \<Rightarrow> string" where
  "query_Get r key = (case map_of r key of None \<Rightarrow> [] | Some v \<Rightarrow> v)"

text \<open>
  \<^verbatim>\<open>handleTokenReceived\<close>. The post-handshake action \<^verbatim>\<open>fetchActivityData(os.Args)\<close>
  does network and console input and output; it is the parameter \<open>fetch\<close>, given the
  session it reads the token from. It is the only caller of \<^verbatim>\<open>injectActivityTcx\<close>,
  where the server is shut down.
\<close>

definition handleTokenReceived ::
  "(session \<Rightarrow> 'doc event list) \<Rightarrow> session \<Rightarrow> request \<Rightarrow> session \<times> 'doc event list" where
  "handleTokenReceived fetch s r =
     (let s1 = s\<lparr>token := query_Get r ''token''\<rparr>;
          s2 = s1\<lparr>stateRedir := query_Get r ''state''\<rparr>
      in if token s2 \<noteq> [] then
           (if stateAuth s2 = stateRedir s2 then
              (s2, [Println (''Access Token: '' @ token s2),
                    Write ''Token received and printed to the server console.'',
                    Write ''State matches with the one sent in auth URL.''] @ fetch s2)
            else
              (s2, [Println (''Access Token: '' @ token s2),
                    Write ''Token received and printed to the server console.'',
                    Write ''The redirect request not originated from this app.'']))
         else (s2, [Write ''No token received.'']))"

text \<open>
  An instance of the post-handshake action for the examples: a fetch that uses the stored
  token and ends, as the real one does, with the shutdown.
\<close>

definition exampleFetch :: "session \<Rightarrow> string event list" where
  "exampleFetch s = [Println (''Authorization: Bearer '' @ token s), Shutdown]"

definition exampleSession :: session where
  "exampleSession =
     \<lparr>codeVerifier = ''v'', codeChallenge = ''c'', stateAuth = ''S1'', stateRedir = [],
      token = ''old''\<rparr>"

text \<open>
  The client configuration of the repository's test, and one whose redirect URL has a
  query of its own.
\<close>

definition exampleConfig :: Config where
  "exampleConfig =
     \<lparr>ClientID = ''test-client-id'', ClientSecret = [],
      RedirectURL = ''https://test.com/redirect'',
      Scopes = [''activity'', ''heartrate'', ''profile'']\<rparr>"

definition exampleConfigQuery :: Config where
  "exampleConfigQuery =
     \<lparr>ClientID = ''test-client-id'', ClientSecret = [],
      RedirectURL = ''http://localhost:8080/callback?a=1&b=2'',
      Scopes = [''activity'']\<rparr>"

section \<open>Timestamps\<close>

text \<open>
  Go's integer division truncates towards zero; \<open>div\<close> and \<open>mod\<close> of HOL round down.
\<close>

definition go_div :: "int \<Rightarrow> int \<Rightarrow> int" where
  "go_div a b = sgn a * sgn b * (\<bar>a\<bar> div \<bar>b\<bar>)"

definition go_mod :: "int \<Rightarrow> int \<Rightarrow> int" where
  "go_mod a b = a - b * go_div a b"

text \<open>An \<^verbatim>\<open>int64\<close> result: the mathematical value wrapped into \<open>[-2^63, 2^63)\<close>.\<close>

definition wrap64 :: "int \<Rightarrow> int" where
  "wrap64 x = (x + 2 ^ 63) mod 2 ^ 64 - 2 ^ 63"

definition int64 :: "int \<Rightarrow> bool" where
  "int64 x \<longleftrightarrow> - (2 ^ 63) \<le> x \<and> x < 2 ^ 63"

text \<open>\<^verbatim>\<open>time.Second\<close>, in the nanoseconds of a \<^verbatim>\<open>time.Duration\<close>.\<close>

definition Second :: int where
  "Second = 1000000000"

text \<open>Decimal digits, as \<^verbatim>\<open>strconv.Itoa\<close> and the formatter of \<^verbatim>\<open>time\<close> write them.\<close>

fun decimal :: "nat \<Rightarrow> string" where
  "decimal n =
     (if n < 10 then [''0123456789'' ! n]
      else decimal (n div 10) @ [''0123456789'' ! (n mod 10)])"

declare decimal.simps [simp del]

definition Itoa :: "int \<Rightarrow> string" where
  "Itoa x = (if x < 0 then ''-'' else []) @ decimal (nat \<bar>x\<bar>)"

definition appendInt :: "int \<Rightarrow> nat \<Rightarrow> string" where
  "appendInt x width =
     (let ds = decimal (nat \<bar>x\<bar>)
      in (if x < 0 then ''-'' else []) @ replicate (width - length ds) (CHR ''0'') @ ds)"

text \<open>
  A \<^verbatim>\<open>time.Time\<close> is an instant: seconds since 1970-01-01T00:00:00Z and nanoseconds
  within the second. \<^verbatim>\<open>t.UTC()\<close> changes the location only, and the only formatting
  below is in UTC, so the location is not a field.
\<close>

record Time =
  unixSec :: int
  nsec :: int

definition isLeap :: "int \<Rightarrow> bool" where
  "isLeap y \<longleftrightarrow> y mod 4 = 0 \<and> (y mod 100 \<noteq> 0 \<or> y mod 400 = 0)"

definition daysIn :: "int \<Rightarrow> int \<Rightarrow> int" where
  "daysIn m y =
     (if m = 2 then (if isLeap y then 29 else 28)
      else if m = 4 \<or> m = 6 \<or> m = 9 \<or> m = 11 then 30 else 31)"

text \<open>
  The proleptic Gregorian calendar of \<^verbatim>\<open>time.Date\<close> and of the formatter: days since
  1970-01-01 from a civil date, and back.
\<close>

definition days_from_civil :: "int \<Rightarrow> int \<Rightarrow> int \<Rightarrow> int" where
  "days_from_civil y m d =
     (let y' = (if m \<le> 2 then y - 1 else y);
          era = y' div 400;
          yoe = y' - era * 400;
          doy = (153 * (if m > 2 then m - 3 else m + 9) + 2) div 5 + d - 1;
          doe = yoe * 365 + yoe div 4 - yoe div 100 + doy
      in era * 146097 + doe - 719468)"

definition civil_from_days :: "int \<Rightarrow> int \<times> int \<times> int" where
  "civil_from_days z =
     (let z' = z + 719468;
          era = z' div 146097;
          doe = z' - era * 146097;
          yoe = (doe - doe div 1460 + doe div 36524 - doe div 146096) div 365;
          doy = doe - (365 * yoe + yoe div 4 - yoe div 100);
          mp = (5 * doy + 2) div 153;
          d = doy - (153 * mp + 2) div 5 + 1;
          m = (if mp < 10 then mp + 3 else mp - 9);
          y = yoe + era * 400
      in (if m \<le> 2 then y + 1 else y, m, d))"

text \<open>
  \<^verbatim>\<open>time.Parse(time.RFC3339, value)\<close>, the layout \<^verbatim>\<open>2006-01-02T15:04:05Z07:00\<close> read
  chunk by chunk as the layout parser of package \<^verbatim>\<open>time\<close> does (Go 1.20 and later):
  a four-digit year, two-digit month and day, a one- or two-digit hour, two-digit minute
  and second, an optional fraction after \<open>.\<close> or \<open>,\<close>, then \<open>Z\<close> or a signed
  \<open>hh:mm\<close> offset, and nothing after it. Every failure is a \<^verbatim>\<open>*time.ParseError\<close>.
\<close>

definition isDigit :: "char \<Rightarrow> bool" where
  "isDigit c \<longleftrightarrow> 48 \<le> (of_char c :: nat) \<and> (of_char c :: nat) \<le> 57"

definition digitVal :: "char \<Rightarrow> int" where
  "digitVal c = int (of_char c) - 48"

definition atoi :: "string \<Rightarrow> int option" where
  "atoi p = (if list_all isDigit p then Some (foldl (\<lambda>a c. a * 10 + digitVal c) 0 p) else None)"

definition getnum :: "string \<Rightarrow> bool \<Rightarrow> (int \<times> string) option" where
  "getnum s fixed =
     (case s of
        [] \<Rightarrow> None
      | c0 # r0 \<Rightarrow>
          if \<not> isDigit c0 then None
          else (case r0 of
                  [] \<Rightarrow> if fixed then None else Some (digitVal c0, r0)
                | c1 # r1 \<Rightarrow>
                    if \<not> isDigit c1 then (if fixed then None else Some (digitVal c0, r0))
                    else Some (digitVal c0 * 10 + digitVal c1, r1)))"

definition skip :: "string \<Rightarrow> char \<Rightarrow> string option" where
  "skip s p = (case s of [] \<Rightarrow> None | c # r \<Rightarrow> if c = p then Some r else None)"

definition parseDate :: "string \<Rightarrow> (int \<times> int \<times> int \<times> string) option" where
  "parseDate s =
     (if length s < 4 \<or> \<not> isDigit (hd s) then None
      else case atoi (take 4 s) of None \<Rightarrow> None | Some year \<Rightarrow>
        (case skip (drop 4 s) (CHR ''-'') of None \<Rightarrow> None | Some s1 \<Rightarrow>
        (case getnum s1 True of None \<Rightarrow> None | Some (month, s2) \<Rightarrow>
           if month \<le> 0 \<or> 12 < month then None
           else (case skip s2 (CHR ''-'') of None \<Rightarrow> None | Some s3 \<Rightarrow>
                (case getnum s3 True of None \<Rightarrow> None | Some (day, s4) \<Rightarrow>
                (case skip s4 (CHR ''T'') of None \<Rightarrow> None | Some s5 \<Rightarrow>
                   Some (year, month, day, s5)))))))"

definition commaOrPeriod :: "char \<Rightarrow> bool" where
  "commaOrPeriod c \<longleftrightarrow> c = CHR ''.'' \<or> c = CHR '',''"

text \<open>
  The fraction: the digits after the separator, at most nine of them counted, scaled to
  nanoseconds.
\<close>

definition parseFraction :: "string \<Rightarrow> int \<times> string" where
  "parseFraction s =
     (case s of
        c # d # rest \<Rightarrow>
          if commaOrPeriod c \<and> isDigit d then
            (let ds = take 9 (d # takeWhile isDigit rest)
             in (foldl (\<lambda>a c. a * 10 + digitVal c) 0 ds * 10 ^ (9 - length ds),
                 dropWhile isDigit rest))
          else (0, s)
      | _ \<Rightarrow> (0, s))"

definition parseClock :: "string \<Rightarrow> (int \<times> int \<times> int \<times> int \<times> string) option" where
  "parseClock s =
     (case getnum s False of None \<Rightarrow> None | Some (hour, s1) \<Rightarrow>
        if hour < 0 \<or> 24 \<le> hour then None
        else (case skip s1 (CHR '':'') of None \<Rightarrow> None | Some s2 \<Rightarrow>
             (case getnum s2 True of None \<Rightarrow> None | Some (minute, s3) \<Rightarrow>
                if minute < 0 \<or> 60 \<le> minute then None
                else (case skip s3 (CHR '':'') of None \<Rightarrow> None | Some s4 \<Rightarrow>
                     (case getnum s4 True of None \<Rightarrow> None | Some (sec, s5) \<Rightarrow>
                        if sec < 0 \<or> 60 \<le> sec then None
                        else (let (ns, s6) = parseFraction s5
                              in Some (hour, minute, sec, ns, s6)))))))"

definition parseZone :: "string \<Rightarrow> (int \<times> string) option" where
  "parseZone s =
     (case s of
        [] \<Rightarrow> None
      | c # r \<Rightarrow>
          if c = CHR ''Z'' then Some (0, r)
          else if length s < 6 then None
          else if s ! 3 \<noteq> CHR '':'' then None
          else (case getnum (take 2 (drop 1 s)) True of None \<Rightarrow> None | Some (hr, _) \<Rightarrow>
               (case getnum (take 2 (drop 4 s)) True of None \<Rightarrow> None | Some (mm, _) \<Rightarrow>
                  if hr > 24 \<or> mm > 60 then None
                  else if c = CHR ''+'' then Some ((hr * 60 + mm) * 60, drop 6 s)
                  else if c = CHR ''-'' then Some (- ((hr * 60 + mm) * 60), drop 6 s)
                  else None)))"

definition time_Parse :: "string \<Rightarrow> Time option" where
  "time_Parse v =
     (case parseDate v of None \<Rightarrow> None | Some (year, month, day, s1) \<Rightarrow>
     (case parseClock s1 of None \<Rightarrow> None | Some (hour, minute, sec, ns, s2) \<Rightarrow>
     (case parseZone s2 of None \<Rightarrow> None | Some (zoneOffset, s3) \<Rightarrow>
        if s3 \<noteq> [] then None
        else if day < 1 \<or> day > daysIn month year then None
        else Some \<lparr>unixSec = days_from_civil year month day * 86400 + hour * 3600
                               + minute * 60 + sec - zoneOffset,
                   nsec = ns\<rparr>)))"

text \<open>\<^verbatim>\<open>t.Add(d)\<close>, with the duration split as the library splits it.\<close>

definition time_Add :: "Time \<Rightarrow> int \<Rightarrow> Time" where
  "time_Add t d =
     (let dsec = go_div d 1000000000;
          n = nsec t + go_mod d 1000000000
      in if n \<ge> 1000000000 then \<lparr>unixSec = unixSec t + (dsec + 1), nsec = n - 1000000000\<rparr>
         else if n < 0 then \<lparr>unixSec = unixSec t + (dsec - 1), nsec = n + 1000000000\<rparr>
         else \<lparr>unixSec = unixSec t + dsec, nsec = n\<rparr>)"

text \<open>
  \<^verbatim>\<open>t.Format(time.RFC3339)\<close> of a time in UTC: the layout has no fraction, and the
  zone of offset zero is written \<open>Z\<close>.
\<close>

definition time_Format :: "Time \<Rightarrow> string" where
  "time_Format t =
     (let days = unixSec t div 86400;
          rem = unixSec t mod 86400;
          (year, month, day) = civil_from_days days
      in appendInt year 4 @ ''-'' @ appendInt month 2 @ ''-'' @ appendInt day 2 @ ''T''
         @ appendInt (rem div 3600) 2 @ '':'' @ appendInt (rem mod 3600 div 60) 2 @ '':''
         @ appendInt (rem mod 60) 2 @ ''Z'')"

definition convertTimestamp :: "string \<Rightarrow> int \<Rightarrow> error + string" where
  "convertTimestamp timeStamp addSecond =
     (case time_Parse timeStamp of
        None \<Rightarrow> Inl ParseError
      | Some t \<Rightarrow>
          (let utcTime = t;
               newTime = time_Add utcTime addSecond
           in Inr (time_Format newTime)))"




section \<open>Timeline transformer\<close>

text \<open>
  The document tree of \<^verbatim>\<open>github.com/beevik/etree\<close>: an element has a namespace
  prefix, a tag, attributes and child tokens; the other tokens are character data,
  comments, directives and processing instructions. A \<^verbatim>\<open>*etree.Document\<close> is the
  element it embeds, whose children are the top-level tokens.
\<close>

datatype AttrT = Attr (ASpace: string) (Key: string) (Value: string)

datatype Token =
    Element (Space: string) (Tag: string) (Attrs: "AttrT list") (Child: "Token list")
  | CharData string
  | Comment string
  | Directive string
  | ProcInst string string

definition spaceDecompose :: "string \<Rightarrow> string \<times> string" where
  "spaceDecompose str =
     (if CHR '':'' \<in> set str
      then (takeWhile (\<lambda>c. c \<noteq> CHR '':'') str, drop 1 (dropWhile (\<lambda>c. c \<noteq> CHR '':'') str))
      else ([], str))"

definition spaceMatch :: "string \<Rightarrow> string \<Rightarrow> bool" where
  "spaceMatch a b \<longleftrightarrow> a = [] \<or> a = b"

definition isTag :: "string \<Rightarrow> Token \<Rightarrow> bool" where
  "isTag tag t =
     (case t of
        Element sp tg _ _ \<Rightarrow> spaceMatch (fst (spaceDecompose tag)) sp \<and> snd (spaceDecompose tag) = tg
      | _ \<Rightarrow> False)"

text \<open>
  \<^verbatim>\<open>e.SelectElement(tag)\<close>: the first child element with the tag, or nil (\<open>None\<close>).
\<close>

definition SelectElement :: "string \<Rightarrow> Token \<Rightarrow> Token option" where
  "SelectElement tag e = find (isTag tag) (Child e)"

text \<open>
  The program changes elements through the pointers it selected. Here the change is a
  function, applied to the first child that the same selection finds.
\<close>

fun updFirst :: "('a \<Rightarrow> bool) \<Rightarrow> ('a \<Rightarrow> 'a) \<Rightarrow> 'a list \<Rightarrow> 'a list" where
  "updFirst p f [] = []"
| "updFirst p f (x # xs) = (if p x then f x # xs else x # updFirst p f xs)"

definition onElement :: "string \<Rightarrow> (Token \<Rightarrow> Token) \<Rightarrow> Token \<Rightarrow> Token" where
  "onElement tag f e = Element (Space e) (Tag e) (Attrs e) (updFirst (isTag tag) f (Child e))"

definition isKey :: "string \<Rightarrow> AttrT \<Rightarrow> bool" where
  "isKey key a \<longleftrightarrow> spaceMatch (fst (spaceDecompose key)) (ASpace a) \<and> snd (spaceDecompose key) = Key a"

definition SelectAttr :: "string \<Rightarrow> Token \<Rightarrow> AttrT option" where
  "SelectAttr key e = find (isKey key) (Attrs e)"

definition setAttrValue :: "string \<Rightarrow> string \<Rightarrow> Token \<Rightarrow> Token" where
  "setAttrValue key v e =
     Element (Space e) (Tag e)
       (updFirst (isKey key) (\<lambda>a. Attr (ASpace a) (Key a) v) (Attrs e)) (Child e)"

definition NewElement :: "string \<Rightarrow> Token" where
  "NewElement tag = Element (fst (spaceDecompose tag)) (snd (spaceDecompose tag)) [] []"

definition AddChild :: "Token \<Rightarrow> Token \<Rightarrow> Token" where
  "AddChild t e = Element (Space e) (Tag e) (Attrs e) (Child e @ [t])"

text \<open>
  \<^verbatim>\<open>e.CreateAttr(key, value)\<close>: the value of an attribute with this prefix and key is
  replaced, otherwise the attribute is appended.
\<close>

definition CreateAttr :: "string \<Rightarrow> string \<Rightarrow> Token \<Rightarrow> Token" where
  "CreateAttr key v e =
     (let space = fst (spaceDecompose key); skey = snd (spaceDecompose key);
          same = (\<lambda>a. space = ASpace a \<and> skey = Key a)
      in if list_ex same (Attrs e)
         then Element (Space e) (Tag e)
                (updFirst same (\<lambda>a. Attr (ASpace a) (Key a) v) (Attrs e)) (Child e)
         else Element (Space e) (Tag e) (Attrs e @ [Attr space skey v]) (Child e))"

definition isCharData :: "Token \<Rightarrow> bool" where
  "isCharData t = (case t of CharData _ \<Rightarrow> True | _ \<Rightarrow> False)"

text \<open>
  \<^verbatim>\<open>e.SetText(text)\<close> replaces the character data that follows the opening tag; an
  empty text leaves no character data there.
\<close>

definition SetText :: "string \<Rightarrow> Token \<Rightarrow> Token" where
  "SetText text e =
     Element (Space e) (Tag e) (Attrs e)
       ((if text = [] then [] else [CharData text]) @ dropWhile isCharData (Child e))"

text \<open>
  \<^verbatim>\<open>e.Text()\<close>: the character data that follows the opening tag, comments skipped,
  up to the first other token.
\<close>

fun leadingText :: "Token list \<Rightarrow> string" where
  "leadingText [] = []"
| "leadingText (CharData d # ts) = d @ leadingText ts"
| "leadingText (Comment c # ts) = leadingText ts"
| "leadingText (t # ts) = []"

definition Text :: "Token \<Rightarrow> string" where
  "Text e = leadingText (Child e)"

text \<open>
  \<^verbatim>\<open>strconv.FormatFloat(totalTime.Seconds(), 'f', -1, 64)\<close>. A duration of whole
  seconds is \<open>float64(sec) + 0\<close>, exact below \<open>2^53\<close>, and is written as the integer. The
  text of a duration with a sub-second part depends on floating-point rounding; it is
  the parameter \<open>fmtFrac\<close>.
\<close>

definition secondsText :: "(int \<Rightarrow> string) \<Rightarrow> int \<Rightarrow> string" where
  "secondsText fmtFrac d =
     (if go_mod d Second = 0 then Itoa (go_div d Second) else fmtFrac d)"

text \<open>
  \<^verbatim>\<open>element.CreateElement(tag).SetText(text)\<close> and the pattern
  \<^verbatim>\<open>NewElement\<close>, \<^verbatim>\<open>SetText\<close>, \<^verbatim>\<open>AddChild\<close> both append a new element with the text.
\<close>

definition textElement :: "string \<Rightarrow> string \<Rightarrow> Token" where
  "textElement tag text = SetText text (NewElement tag)"

text \<open>
  The Swim branch, on the \<open>Activity\<close> element \<open>root\<close>. The two calls of
  \<open>convertTimestamp\<close> drop the error (\<^verbatim>\<open>tss, _ :=\<close>), which leaves the empty string.
  A method called through a nil pointer panics.
\<close>

definition dropError :: "error + string \<Rightarrow> string" where
  "dropError r = (case r of Inl e \<Rightarrow> [] | Inr v \<Rightarrow> v)"

definition swimLap :: "(int \<Rightarrow> string) \<Rightarrow> string \<Rightarrow> int \<Rightarrow> string \<Rightarrow> string \<Rightarrow> Token" where
  "swimLap fmtFrac idElement totalTime distMeters calories =
     (let lapElement = NewElement ''Lap'';
          tss = dropError (convertTimestamp idElement 0);
          lapElement = CreateAttr ''StartTime'' tss lapElement;
          lapElement = AddChild (textElement ''TotalTimeSeconds'' (secondsText fmtFrac totalTime)) lapElement;
          lapElement = AddChild (textElement ''DistanceMeters'' distMeters) lapElement;
          lapElement = AddChild (textElement ''Calories'' calories) lapElement;
          lapElement = AddChild (textElement ''Intensity'' ''Active'') lapElement;
          lapElement = AddChild (textElement ''TriggerMethod'' ''Manual'') lapElement;
          trackPtElementStart =
            AddChild (textElement ''DistanceMeters'' ''0'')
              (AddChild (textElement ''Time'' tss) (NewElement ''Trackpoint''));
          tse = dropError (convertTimestamp idElement totalTime);
          trackPtElementEnd =
            AddChild (textElement ''DistanceMeters'' distMeters)
              (AddChild (textElement ''Time'' tse) (NewElement ''Trackpoint''));
          trackElement = AddChild trackPtElementEnd (AddChild trackPtElementStart (NewElement ''Track''))
      in AddChild trackElement lapElement)"

definition swimActivity ::
  "(int \<Rightarrow> string) \<Rightarrow> string \<Rightarrow> int \<Rightarrow> string \<Rightarrow> string \<Rightarrow> Token \<Rightarrow> error + Token" where
  "swimActivity fmtFrac actName totalTime distMeters calories root =
     (case SelectAttr ''Sport'' root of
        None \<Rightarrow> Inl NilPointer
      | Some _ \<Rightarrow>
          (let root1 = setAttrValue ''Sport'' actName root
           in case SelectElement ''Id'' root1 of
                None \<Rightarrow> Inl NilPointer
              | Some idEl \<Rightarrow>
                  (let idElement = Text idEl;
                       nameElement = textElement ''Name'' ''Fitbit''
                   in case SelectElement ''Creator'' root1 of
                        None \<Rightarrow> Inl NilPointer
                      | Some _ \<Rightarrow>
                          (let root2 = onElement ''Creator'' (AddChild nameElement) root1
                           in Inr (AddChild
                                     (swimLap fmtFrac idElement totalTime distMeters calories)
                                     root2)))))"

text \<open>
  The path \<open>TrainingCenterDatabase / Activities / Activity\<close> from the document, and a
  change of the element at its end. A missing step is a nil pointer, and the next
  method call on it panics.
\<close>

definition onActivity :: "(Token \<Rightarrow> error + Token) \<Rightarrow> Token \<Rightarrow> error + Token" where
  "onActivity f xmlDoc =
     (case SelectElement ''TrainingCenterDatabase'' xmlDoc of
        None \<Rightarrow> Inl NilPointer
      | Some tcd \<Rightarrow>
          (case SelectElement ''Activities'' tcd of
             None \<Rightarrow> Inl NilPointer
           | Some acts \<Rightarrow>
               (case SelectElement ''Activity'' acts of
                  None \<Rightarrow> Inl NilPointer
                | Some root \<Rightarrow>
                    (case f root of
                       Inl e \<Rightarrow> Inl e
                     | Inr root' \<Rightarrow>
                         Inr (onElement ''TrainingCenterDatabase''
                                (onElement ''Activities''
                                   (onElement ''Activity'' (\<lambda>_. root'))) xmlDoc)))))"

definition deviceName :: "Token \<Rightarrow> error + Token" where
  "deviceName activity =
     (case SelectElement ''Creator'' activity of
        None \<Rightarrow> Inl NilPointer
      | Some _ \<Rightarrow> Inr (onElement ''Creator'' (AddChild (textElement ''Name'' ''Fitbit'')) activity))"

text \<open>
  The two \<^verbatim>\<open>if\<close> statements of \<^verbatim>\<open>injectActivityTcx\<close>, one after the other: the
  document as it is handed to \<^verbatim>\<open>Indent\<close> and \<^verbatim>\<open>WriteToString\<close>.
\<close>

definition injectDoc ::
  "(int \<Rightarrow> string) \<Rightarrow> Token \<Rightarrow> string \<Rightarrow> int \<Rightarrow> string \<Rightarrow> string \<Rightarrow> error + Token" where
  "injectDoc fmtFrac xmlDoc actName totalTime distMeters calories =
     (case (if actName = ''Swim''
            then onActivity (swimActivity fmtFrac actName totalTime distMeters calories) xmlDoc
            else Inr xmlDoc) of
        Inl e \<Rightarrow> Inl e
      | Inr doc1 \<Rightarrow>
          if actName = ''Treadmill'' \<or> actName = ''Weights''
          then onActivity deviceName doc1
          else Inr doc1)"

text \<open>
  \<^verbatim>\<open>injectActivityTcx\<close>: the document is changed, then printed, saved under
  \<^verbatim>\<open>fName + ".tcx"\<close>, and the server is shut down. The function has no result; a panic
  is the \<open>Inl\<close> value. The serializer and the file system are taken to succeed: their
  failure ends the process (\<^verbatim>\<open>log.Fatalf\<close>).
\<close>

definition injectActivityTcx ::
  "(int \<Rightarrow> string) \<Rightarrow> string \<Rightarrow> Token \<Rightarrow> string \<Rightarrow> int \<Rightarrow> string \<Rightarrow> string
     \<Rightarrow> error + Token \<times> Token event list" where
  "injectActivityTcx fmtFrac fName xmlDoc actName totalTime distMeters calories =
     (case injectDoc fmtFrac xmlDoc actName totalTime distMeters calories of
        Inl e \<Rightarrow> Inl e
      | Inr doc \<Rightarrow> Inr (doc, [PrintDoc doc, SaveToFile (fName @ ''.tcx'') doc, Shutdown]))"

text \<open>
  The call in \<^verbatim>\<open>fetchActivityData\<close>: the duration in milliseconds becomes
  \<^verbatim>\<open>time.Duration(chosenActivity.Duration/1000)*time.Second\<close>, an \<^verbatim>\<open>int64\<close> product.
  The distance text is \<^verbatim>\<open>strconv.FormatFloat(chosenActivity.Distance*1000.0, ...)\<close>,
  a floating-point value; it is taken as it arrives.
\<close>

record Activity =
  ActivityParentName :: string
  Calories :: int
  Duration :: int
  LogID :: int

definition handedDuration :: "int \<Rightarrow> int" where
  "handedDuration ms = wrap64 (go_div ms 1000 * Second)"

definition transformChosen ::
  "(int \<Rightarrow> string) \<Rightarrow> string \<Rightarrow> Activity \<Rightarrow> Token \<Rightarrow> error + Token \<times> Token event list" where
  "transformChosen fmtFrac distMeters chosenActivity xml =
     injectActivityTcx fmtFrac
       (ActivityParentName chosenActivity @ ''-'' @ Itoa (LogID chosenActivity)) xml
       (ActivityParentName chosenActivity) (handedDuration (Duration chosenActivity))
       distMeters (Itoa (Calories chosenActivity))"

text \<open>
  The selection chain of the Treadmill and Weights branch,
  \<^verbatim>\<open>xmlDoc.SelectElement(...).SelectElement(...).SelectElement(...).SelectElement("Creator")\<close>;
  \<open>None\<close> when a step is missing.
\<close>

definition selectActivity :: "Token \<Rightarrow> Token option" where
  "selectActivity xmlDoc =
     Option.bind (SelectElement ''TrainingCenterDatabase'' xmlDoc)
       (\<lambda>tcd. Option.bind (SelectElement ''Activities'' tcd) (SelectElement ''Activity''))"

definition selectCreator :: "Token \<Rightarrow> Token option" where
  "selectCreator xmlDoc = Option.bind (selectActivity xmlDoc) (SelectElement ''Creator'')"

text \<open>Counting and finding elements in a tree, to state what a transformation adds.\<close>

fun countTag :: "string \<Rightarrow> Token \<Rightarrow> nat" where
  "countTag tg (Element sp t as ch) = (if t = tg then 1 else 0) + sum_list (map (countTag tg) ch)"
| "countTag tg t = 0"

text \<open>
  A document of the shape the provider exports for an activity without track data, with
  the given text in its \<open>Id\<close> element; the concrete input of the examples below.
\<close>

definition exampleActivity :: "string \<Rightarrow> Token" where
  "exampleActivity idText =
     Element [] ''Activity'' [Attr [] ''Sport'' ''Other'']
       [Element [] ''Id'' [] [CharData idText],
        Element [] ''Creator'' [Attr ''xsi'' ''type'' ''Device_t'']
          [Element [] ''UnitId'' [] [CharData ''0''],
           Element [] ''ProductID'' [] [CharData ''0'']]]"

definition exampleDoc :: "string \<Rightarrow> Token" where
  "exampleDoc idText =
     Element [] [] []
       [ProcInst ''xml'' ''version=1.0'',
        Element [] ''TrainingCenterDatabase''
          [Attr [] ''xmlns'' ''http://www.garmin.com/xmlschemas/TrainingCenterDatabase/v2'']
          [Element [] ''Activities'' [] [exampleActivity idText]]]"

text \<open>
  The characters that the formatter of timestamps and \<open>Itoa\<close> can write: digits,
  the sign, and the separators of the RFC 3339 layout. The fraction separators \<open>.\<close>
  and \<open>,\<close> are not among them.
\<close>

definition fmtChar :: "char \<Rightarrow> bool" where
  "fmtChar c \<longleftrightarrow>
     isDigit c \<or> c = CHR ''-'' \<or> c = CHR ''T'' \<or> c = CHR '':'' \<or> c = CHR ''Z''"

section \<open>Properties\<close>

subsection \<open>The code verifier\<close>

lemma rfc3986Chars_length: "length rfc3986Chars = 66"
  by (simp add: rfc3986Chars_def)

lemma verifier_loop_delivers:
  "delivers k rs \<Longrightarrow>
     \<exists>s. verifier_loop k rs = (Inr s, drop k rs) \<and> length s = k \<and> set s \<subseteq> set rfc3986Chars"
proof (induction k arbitrary: rs)
  case 0
  then show ?case by simp
next
  case (Suc k)
  from Suc.prems obtain n rs' where rs: "rs = Some n # rs'" and d: "delivers k rs'"
    by (cases rs) (auto simp: delivers_def)
  from Suc.IH [OF d] obtain s where
    s: "verifier_loop k rs' = (Inr s, drop k rs')" "length s = k" "set s \<subseteq> set rfc3986Chars"
    by blast
  have "n mod 66 < length rfc3986Chars"
    by (simp add: rfc3986Chars_length)
  then have "rfc3986Chars ! (n mod 66) \<in> set rfc3986Chars"
    by (rule nth_mem)
  with s rs show ?case
    by (simp add: rfc3986Chars_length)
qed

lemma verifier_loop_fails:
  "\<not> delivers k rs \<Longrightarrow> fst (verifier_loop k rs) = Inl RandFailure"
proof (induction k arbitrary: rs)
  case 0
  then show ?case by (simp add: delivers_def)
next
  case (Suc k)
  show ?case
  proof (cases rs)
    case Nil
    then show ?thesis by simp
  next
    case (Cons d rs')
    show ?thesis
    proof (cases d)
      case None
      with Cons show ?thesis by simp
    next
      case (Some n)
      with Cons Suc.prems have "\<not> delivers k rs'"
        by (simp add: delivers_def)
      from Suc.IH [OF this] Cons Some show ?thesis
        by (cases "verifier_loop k rs'") (auto split: sum.splits)
    qed
  qed
qed

text \<open>
  C7. For a length in \<open>[43,128]\<close> and a random reader that delivers that many draws,
  \<open>generateCodeVerifier\<close> returns a string of exactly that length over the 66-character
  unreserved alphabet \<open>A-Z a-z 0-9 - . _ ~\<close>; for a length outside the range it fails
  with the invalid-length error, whatever the reader holds.
\<close>

theorem generateCodeVerifier_spec:
  "(43 \<le> L \<and> L \<le> 128 \<and> delivers (nat L) rs \<longrightarrow>
      (\<exists>s. fst (generateCodeVerifier L rs) = Inr s \<and> int (length s) = L
           \<and> set s \<subseteq> set rfc3986Chars))
   \<and> (L < 43 \<or> 128 < L \<longrightarrow> generateCodeVerifier L rs = (Inl InvalidLength, rs))
   \<and> length rfc3986Chars = 66 \<and> distinct rfc3986Chars
   \<and> set rfc3986Chars =
       set ''ABCDEFGHIJKLMNOPQRSTUVWXYZ'' \<union> set ''abcdefghijklmnopqrstuvwxyz''
       \<union> set ''0123456789'' \<union> set ''-._~''"
proof (intro conjI impI)
  assume a: "43 \<le> L \<and> L \<le> 128 \<and> delivers (nat L) rs"
  then obtain s where "verifier_loop (nat L) rs = (Inr s, drop (nat L) rs)"
    "length s = nat L" "set s \<subseteq> set rfc3986Chars"
    using verifier_loop_delivers by blast
  with a show "\<exists>s. fst (generateCodeVerifier L rs) = Inr s \<and> int (length s) = L
      \<and> set s \<subseteq> set rfc3986Chars"
    by (auto simp: generateCodeVerifier_def)
next
  assume "L < 43 \<or> 128 < L"
  then show "generateCodeVerifier L rs = (Inl InvalidLength, rs)"
    by (auto simp: generateCodeVerifier_def)
next
  show "length rfc3986Chars = 66" by (rule rfc3986Chars_length)
next
  show "distinct rfc3986Chars" by (simp add: rfc3986Chars_def)
next
  show "set rfc3986Chars =
       set ''ABCDEFGHIJKLMNOPQRSTUVWXYZ'' \<union> set ''abcdefghijklmnopqrstuvwxyz''
       \<union> set ''0123456789'' \<union> set ''-._~''"
    by (auto simp: rfc3986Chars_def)
qed

theorem generateCodeVerifier_spec_witness:
  "(\<exists>s. fst (generateCodeVerifier 43 (replicate 43 (Some 7))) = Inr s \<and> int (length s) = 43
        \<and> set s \<subseteq> set rfc3986Chars)
   \<and> generateCodeVerifier 42 [Some 1] = (Inl InvalidLength, [Some 1])
   \<and> generateCodeVerifier 129 [Some 1] = (Inl InvalidLength, [Some 1])"
proof -
  have d: "delivers (nat 43) (replicate 43 (Some 7))"
    by (simp add: delivers_def list_all_iff)
  show ?thesis
    using d generateCodeVerifier_spec [of 43 "replicate 43 (Some 7)"]
      generateCodeVerifier_spec [of 42 "[Some 1]"]
      generateCodeVerifier_spec [of 129 "[Some 1]"]
    by simp
qed

subsection \<open>The code challenge\<close>

lemma sha_round_length: "length (sha_round kw st) = length st"
  by (induction kw st rule: sha_round.induct) (simp_all add: Let_def)

lemma fold_sha_round_length: "length (fold sha_round kws st) = length st"
  by (induction kws arbitrary: st) (simp_all add: sha_round_length)

lemma sha_block_length: "length (sha_block hs ws) = length hs"
  by (simp add: sha_block_def fold_sha_round_length)

lemma fold_blocks_length:
  "length (fold (\<lambda>blk hs. sha_block hs (f blk)) blks hs0) = length hs0"
  by (induction blks arbitrary: hs0) (simp_all add: sha_block_length)

lemma concat_put32_length: "length (concat (map put32 hs)) = 4 * length hs"
  by (induction hs) (simp_all add: put32_def)

lemma sha256_Sum256_length: "length (sha256_Sum256 m) = 32"
  by (simp add: sha256_Sum256_def Let_def concat_put32_length fold_blocks_length
      sha256_init_def)

lemma EncodeToString_length: "length (EncodeToString bs) = (length bs * 4 + 2) div 3"
  by (induction bs rule: EncodeToString.induct) (simp_all add: Let_def)

lemma enc6_mem: "enc6 val sh \<in> set encodeURL"
proof -
  have "unat (drop_bit sh val AND 0x3F) \<le> unat (0x3F :: u32)"
    by (rule word_and_le1 [THEN word_le_nat_alt [THEN iffD1]])
  then have "unat (drop_bit sh val AND 0x3F) < length encodeURL"
    by (simp add: encodeURL_def)
  then show ?thesis
    unfolding enc6_def by (rule nth_mem)
qed

lemma EncodeToString_alphabet: "set (EncodeToString bs) \<subseteq> set encodeURL"
  by (induction bs rule: EncodeToString.induct) (simp_all add: Let_def enc6_mem)

text \<open>The digest of the bytes \<open>testverifier\<close>, step by step.\<close>

lemma replicate_numeral: "replicate (numeral n) x = x # replicate (pred_numeral n) x"
  by (simp add: numeral_eq_Suc)

lemma chunks_numeral:
  "chunks (numeral n) k xs = take k xs # chunks (pred_numeral n) k (drop k xs)"
  by (simp add: numeral_eq_Suc)

lemma tv_bytes:
  "bytes_of ''testverifier'' = [116, 101, 115, 116, 118, 101, 114, 105, 102, 105, 101, 114]"
  by (simp add: bytes_of_def)

lemma tv_pad:
  "sha_pad [116, 101, 115, 116, 118, 101, 114, 105, 102, 105, 101, 114] =
   [116, 101, 115, 116, 118, 101, 114, 105, 102, 105, 101, 114, 128, 0, 0, 0,
    0, 0, 0, 0, 0, 0, 0, 0, 0, 0, 0, 0, 0, 0, 0, 0, 0, 0, 0, 0, 0, 0, 0, 0, 0,
    0, 0, 0, 0, 0, 0, 0, 0, 0, 0, 0, 0, 0, 0, 0, 0, 0, 0, 0, 0, 0, 0, 96]"
  by (simp add: sha_pad_def put64_def replicate_numeral)

lemma tv_words:
  "map be32 (chunks 16 4
   [116, 101, 115, 116, 118, 101, 114, 105, 102, 105, 101, 114, 128, 0, 0, 0,
    0, 0, 0, 0, 0, 0, 0, 0, 0, 0, 0, 0, 0, 0, 0, 0, 0, 0, 0, 0, 0, 0, 0, 0, 0,
    0, 0, 0, 0, 0, 0, 0, 0, 0, 0, 0, 0, 0, 0, 0, 0, 0, 0, 0, 0, 0, 0, 96]) =
   [1952805748, 1986359913, 1718183282, 2147483648, 0, 0, 0, 0, 0, 0, 0, 0, 0, 0, 0, 96]"
  by (simp add: chunks_numeral)

lemma tv_schedule:
  "schedule 48
     [1952805748, 1986359913, 1718183282, 2147483648, 0, 0, 0, 0, 0, 0, 0, 0, 0, 0, 0, 96] =
   [1952805748, 1986359913, 1718183282, 2147483648, 0, 0, 0, 0, 0, 0, 0, 0, 0,
    0, 0, 96, 4112493732, 671013479, 2607098169, 913737910, 832382868,
    2504015959, 926218772, 488903868, 172239529, 607382892, 3329867286,
    3165635064, 2117625331, 1344363590, 462713738, 1281690838, 1295004859,
    1081055526, 1031675902, 1544320351, 4217731147, 1962276342, 358494305,
    144925345, 1350751954, 2575241255, 1790967536, 311312018, 3315659032,
    1237751219, 1895293213, 2809681368, 2519018636, 1205395963, 745336943,
    1695104710, 3395829485, 3945386680, 1897772392, 2365586697, 2624988424,
    3643892545, 1335614718, 2423162894, 293952133, 482286735, 3034971544,
    4069230384]"
  by code_simp

lemma tv_rounds:
  "fold sha_round (zip sha256_K
   [1952805748, 1986359913, 1718183282, 2147483648, 0, 0, 0, 0, 0, 0, 0, 0, 0,
    0, 0, 96, 4112493732, 671013479, 2607098169, 913737910, 832382868,
    2504015959, 926218772, 488903868, 172239529, 607382892, 3329867286,
    3165635064, 2117625331, 1344363590, 462713738, 1281690838, 1295004859,
    1081055526, 1031675902, 1544320351, 4217731147, 1962276342, 358494305,
    144925345, 1350751954, 2575241255, 1790967536, 311312018, 3315659032,
    1237751219, 1895293213, 2809681368, 2519018636, 1205395963, 745336943,
    1695104710, 3395829485, 3945386680, 1897772392, 2365586697, 2624988424,
    3643892545, 1335614718, 2423162894, 293952133, 482286735, 3034971544,
    4069230384]) sha256_init =
   [2078095492, 1898781690, 1201175726, 2919424489, 2015495594, 309092044, 1518929602,
    3534862741]"
  by code_simp

lemma tv_block:
  "sha_block sha256_init
     [1952805748, 1986359913, 1718183282, 2147483648, 0, 0, 0, 0, 0, 0, 0, 0, 0, 0, 0, 96] =
   [3857129195, 747948671, 2215079968, 1397937955, 3375388713, 2909914968, 2047664237,
    781354670]"
  unfolding sha_block_def tv_schedule tv_rounds by (simp add: sha256_init_def)

lemma tv_put:
  "concat (map put32 [3857129195, 747948671, 2215079968, 1397937955, 3375388713, 2909914968,
     2047664237, 781354670]) =
   [229, 231, 30, 235, 44, 148, 202, 127, 132, 7, 112, 32, 83, 82, 215, 35,
    201, 48, 88, 41, 173, 113, 199, 88, 122, 12, 224, 109, 46, 146, 134, 174]"
  by (simp add: put32_def)

lemma tv_sum:
  "sha256_Sum256 (bytes_of ''testverifier'') =
   [229, 231, 30, 235, 44, 148, 202, 127, 132, 7, 112, 32, 83, 82, 215, 35,
    201, 48, 88, 41, 173, 113, 199, 88, 122, 12, 224, 109, 46, 146, 134, 174]"
proof -
  have c: "chunks (length ([116, 101, 115, 116, 118, 101, 114, 105, 102, 105, 101, 114, 128, 0, 0, 0,
    0, 0, 0, 0, 0, 0, 0, 0, 0, 0, 0, 0, 0, 0, 0, 0, 0, 0, 0, 0, 0, 0, 0, 0, 0,
    0, 0, 0, 0, 0, 0, 0, 0, 0, 0, 0, 0, 0, 0, 0, 0, 0, 0, 0, 0, 0, 0, 96] :: byte list) div 64) 64
   [116, 101, 115, 116, 118, 101, 114, 105, 102, 105, 101, 114, 128, 0, 0, 0,
    0, 0, 0, 0, 0, 0, 0, 0, 0, 0, 0, 0, 0, 0, 0, 0, 0, 0, 0, 0, 0, 0, 0, 0, 0,
    0, 0, 0, 0, 0, 0, 0, 0, 0, 0, 0, 0, 0, 0, 0, 0, 0, 0, 0, 0, 0, 0, 96] =
   [[116, 101, 115, 116, 118, 101, 114, 105, 102, 105, 101, 114, 128, 0, 0, 0,
    0, 0, 0, 0, 0, 0, 0, 0, 0, 0, 0, 0, 0, 0, 0, 0, 0, 0, 0, 0, 0, 0, 0, 0, 0,
    0, 0, 0, 0, 0, 0, 0, 0, 0, 0, 0, 0, 0, 0, 0, 0, 0, 0, 0, 0, 0, 0, 96]]"
    by simp
  show ?thesis
    unfolding sha256_Sum256_def Let_def tv_bytes tv_pad c
    by (simp only: fold_simps tv_words tv_block tv_put id_apply comp_apply)
qed

lemma tv_enc:
  "EncodeToString
   [229, 231, 30, 235, 44, 148, 202, 127, 132, 7, 112, 32, 83, 82, 215, 35,
    201, 48, 88, 41, 173, 113, 199, 88, 122, 12, 224, 109, 46, 146, 134, 174] =
   ''5ece6yyUyn-EB3AgU1LXI8kwWCmtccdYegzgbS6Shq4''"
  by (simp add: enc6_def encodeURL_def)

text \<open>
  C8. \<open>generateCodeChallenge\<close> is a function of the verifier alone (no random reader, no
  session), so equal verifiers give equal challenges. The empty verifier fails with the
  empty-input error. A non-empty verifier gives the unpadded URL-safe base64 text of the
  SHA-256 digest of its bytes, 43 characters of the base64url alphabet. For the verifier
  \<open>testverifier\<close> that text is \<open>5ece6yyUyn-EB3AgU1LXI8kwWCmtccdYegzgbS6Shq4\<close>, the
  encoding of the digest \<open>e5e71eeb...2e9286ae\<close>.
\<close>

theorem generateCodeChallenge_spec:
  "generateCodeChallenge [] = Inl EmptyInput
   \<and> (v = v' \<longrightarrow> generateCodeChallenge v = generateCodeChallenge v')
   \<and> (v \<noteq> [] \<longrightarrow>
        generateCodeChallenge v = Inr (EncodeToString (sha256_Sum256 (bytes_of v)))
        \<and> length (sha256_Sum256 (bytes_of v)) = 32
        \<and> length (EncodeToString (sha256_Sum256 (bytes_of v))) = 43
        \<and> set (EncodeToString (sha256_Sum256 (bytes_of v))) \<subseteq> set encodeURL)
   \<and> CHR ''='' \<notin> set encodeURL
   \<and> generateCodeChallenge ''testverifier''
       = Inr (EncodeToString (sha256_Sum256 (bytes_of ''testverifier'')))
   \<and> generateCodeChallenge ''testverifier''
       = Inr ''5ece6yyUyn-EB3AgU1LXI8kwWCmtccdYegzgbS6Shq4''"
proof -
  have e: "generateCodeChallenge [] = Inl EmptyInput"
    by (simp add: generateCodeChallenge_def)
  have n: "v \<noteq> [] \<longrightarrow>
        generateCodeChallenge v = Inr (EncodeToString (sha256_Sum256 (bytes_of v)))
        \<and> length (sha256_Sum256 (bytes_of v)) = 32
        \<and> length (EncodeToString (sha256_Sum256 (bytes_of v))) = 43
        \<and> set (EncodeToString (sha256_Sum256 (bytes_of v))) \<subseteq> set encodeURL"
    by (simp add: generateCodeChallenge_def EncodeToString_length sha256_Sum256_length
        EncodeToString_alphabet)
  have p: "CHR ''='' \<notin> set encodeURL"
    by (simp add: encodeURL_def)
  have t: "generateCodeChallenge ''testverifier''
       = Inr (EncodeToString (sha256_Sum256 (bytes_of ''testverifier'')))"
    by (simp add: generateCodeChallenge_def)
  have t': "generateCodeChallenge ''testverifier''
       = Inr ''5ece6yyUyn-EB3AgU1LXI8kwWCmtccdYegzgbS6Shq4''"
    unfolding t tv_sum tv_enc by (rule refl)
  from e n p t t' show ?thesis
    by blast
qed

theorem generateCodeChallenge_spec_witness:
  "generateCodeChallenge ''abc'' = Inr (EncodeToString (sha256_Sum256 (bytes_of ''abc'')))
   \<and> length (EncodeToString (sha256_Sum256 (bytes_of ''abc''))) = 43
   \<and> generateCodeChallenge ''abc'' = generateCodeChallenge ''abc''"
  using generateCodeChallenge_spec [of "''abc''" "''abc''"] by simp

subsection \<open>The completion handler\<close>

text \<open>
  C2, as the code has it. With a non-empty token: the token and the received state are
  stored first, whatever the state is. If the received state equals the stored
  correlation value, the handler answers that the state matches and runs the
  post-handshake action on the session that holds the token. If it differs, the handler
  answers that the request did not originate from this application and does nothing
  else: the action is not run and there is no shutdown. The token of the rejected request
  is in the session all the same.
\<close>

theorem handleTokenReceived_nonempty:
  "query_Get r ''token'' \<noteq> [] \<Longrightarrow>
   (query_Get r ''state'' = stateAuth s \<longrightarrow>
      handleTokenReceived fetch s r =
        (s\<lparr>token := query_Get r ''token'', stateRedir := query_Get r ''state''\<rparr>,
         [Println (''Access Token: '' @ query_Get r ''token''),
          Write ''Token received and printed to the server console.'',
          Write ''State matches with the one sent in auth URL.'']
         @ fetch (s\<lparr>token := query_Get r ''token'', stateRedir := query_Get r ''state''\<rparr>)))
   \<and> (query_Get r ''state'' \<noteq> stateAuth s \<longrightarrow>
      handleTokenReceived fetch s r =
        (s\<lparr>token := query_Get r ''token'', stateRedir := query_Get r ''state''\<rparr>,
         [Println (''Access Token: '' @ query_Get r ''token''),
          Write ''Token received and printed to the server console.'',
          Write ''The redirect request not originated from this app.''])
      \<and> Shutdown \<notin> set (snd (handleTokenReceived fetch s r))
      \<and> token (fst (handleTokenReceived fetch s r)) = query_Get r ''token''
      \<and> stateAuth (fst (handleTokenReceived fetch s r)) = stateAuth s)"
  by (auto simp: handleTokenReceived_def Let_def)

theorem handleTokenReceived_nonempty_witness:
  "handleTokenReceived exampleFetch exampleSession [(''token'', ''tok''), (''state'', ''S1'')] =
     (exampleSession\<lparr>token := ''tok'', stateRedir := ''S1''\<rparr>,
      [Println ''Access Token: tok'',
       Write ''Token received and printed to the server console.'',
       Write ''State matches with the one sent in auth URL.'',
       Println ''Authorization: Bearer tok'', Shutdown])
   \<and> handleTokenReceived exampleFetch exampleSession [(''token'', ''tok''), (''state'', ''X'')] =
     (exampleSession\<lparr>token := ''tok'', stateRedir := ''X''\<rparr>,
      [Println ''Access Token: tok'',
       Write ''Token received and printed to the server console.'',
       Write ''The redirect request not originated from this app.''])"
  using handleTokenReceived_nonempty
          [of "[(''token'', ''tok''), (''state'', ''S1'')]" exampleSession exampleFetch]
        handleTokenReceived_nonempty
          [of "[(''token'', ''tok''), (''state'', ''X'')]" exampleSession exampleFetch]
  by (simp add: query_Get_def exampleSession_def exampleFetch_def)

text \<open>
  The claim as it stands fails: a request with the wrong state replaces the stored token.
\<close>

theorem handleTokenReceived_mismatch_stores_token:
  "stateAuth exampleSession \<noteq> ''X''
   \<and> token exampleSession = ''old''
   \<and> token (fst (handleTokenReceived exampleFetch exampleSession
                    [(''token'', ''tok''), (''state'', ''X'')])) = ''tok''"
  by (simp add: handleTokenReceived_def query_Get_def exampleSession_def Let_def)

text \<open>
  C3, as the code has it. A request without a token is answered with
  \<open>No token received.\<close>; the post-handshake action is not run and there is no shutdown;
  the verifier, the challenge and the expected correlation value stay as they are. The
  stored token becomes the empty string and the received state is stored.
\<close>

theorem handleTokenReceived_empty:
  "query_Get r ''token'' = [] \<Longrightarrow>
   handleTokenReceived fetch s r =
     (s\<lparr>token := [], stateRedir := query_Get r ''state''\<rparr>, [Write ''No token received.''])
   \<and> Shutdown \<notin> set (snd (handleTokenReceived fetch s r))
   \<and> stateAuth (fst (handleTokenReceived fetch s r)) = stateAuth s
   \<and> codeVerifier (fst (handleTokenReceived fetch s r)) = codeVerifier s
   \<and> codeChallenge (fst (handleTokenReceived fetch s r)) = codeChallenge s"
  by (simp add: handleTokenReceived_def Let_def)

theorem handleTokenReceived_empty_witness:
  "handleTokenReceived exampleFetch exampleSession [(''state'', ''S1'')] =
     (exampleSession\<lparr>token := [], stateRedir := ''S1''\<rparr>, [Write ''No token received.''])"
  using handleTokenReceived_empty [of "[(''state'', ''S1'')]" exampleFetch exampleSession]
  by (simp add: query_Get_def)

text \<open>
  The claim as it stands fails: the session is not left unchanged, the token that was
  stored is lost.
\<close>

theorem handleTokenReceived_empty_changes_session:
  "query_Get [(''state'', ''S1'')] ''token'' = []
   \<and> fst (handleTokenReceived exampleFetch exampleSession [(''state'', ''S1'')]) \<noteq> exampleSession
   \<and> token exampleSession = ''old''
   \<and> token (fst (handleTokenReceived exampleFetch exampleSession [(''state'', ''S1'')])) = []"
  by (simp add: handleTokenReceived_def query_Get_def exampleSession_def Let_def)

subsection \<open>Timestamp conversion\<close>






lemma parse_word: "time_Parse ''yesterday'' = None"
  by code_simp

lemma convertTimestamp_cases:
  "convertTimestamp ts d =
     (case time_Parse ts of None \<Rightarrow> Inl ParseError | Some t \<Rightarrow> Inr (time_Format (time_Add t d)))"
  by (simp add: convertTimestamp_def Let_def split: option.splits)














subsection \<open>Whole seconds\<close>

lemma digit_nth: "k < 10 \<Longrightarrow> isDigit (''0123456789'' ! k)"
proof -
  have "list_all isDigit ''0123456789''"
    by (simp add: isDigit_def)
  then show "k < 10 \<Longrightarrow> isDigit (''0123456789'' ! k)"
    by (simp add: list_all_length)
qed

lemma decimal_digits: "list_all isDigit (decimal n)"
proof (induction n rule: decimal.induct)
  case (1 n)
  show ?case
  proof (cases "n < 10")
    case True
    then show ?thesis
      by (subst decimal.simps) (simp add: digit_nth)
  next
    case False
    with 1 have "list_all isDigit (decimal (n div 10))"
      by simp
    moreover have "isDigit (''0123456789'' ! (n mod 10))"
      by (rule digit_nth) simp
    ultimately show ?thesis
      using False by (subst decimal.simps) simp
  qed
qed

lemma fmtChar_digit: "isDigit c \<Longrightarrow> fmtChar c"
  by (simp add: fmtChar_def)

lemma Itoa_chars: "list_all fmtChar (Itoa x)"
  using decimal_digits [of "nat \<bar>x\<bar>"]
  by (auto simp: Itoa_def list_all_iff fmtChar_def)

lemma appendInt_chars: "list_all fmtChar (appendInt x w)"
  using decimal_digits [of "nat \<bar>x\<bar>"]
  by (auto simp: appendInt_def Let_def list_all_iff fmtChar_def isDigit_def)

lemma time_Format_chars: "list_all fmtChar (time_Format t)"
proof -
  obtain y m d where c: "civil_from_days (unixSec t div 86400) = (y, m, d)"
    by (cases "civil_from_days (unixSec t div 86400)") auto
  have "time_Format t =
      appendInt y 4 @ ''-'' @ appendInt m 2 @ ''-'' @ appendInt d 2 @ ''T''
      @ appendInt (unixSec t mod 86400 div 3600) 2 @ '':''
      @ appendInt (unixSec t mod 86400 mod 3600 div 60) 2 @ '':''
      @ appendInt (unixSec t mod 86400 mod 60) 2 @ ''Z''"
    by (simp add: time_Format_def Let_def c)
  then show ?thesis
    by (simp add: appendInt_chars) (simp add: fmtChar_def)
qed

lemma fmtChar_no_fraction: "\<not> fmtChar (CHR ''.'') \<and> \<not> fmtChar (CHR '','')"
  by (simp add: fmtChar_def isDigit_def)

lemma no_fraction: "list_all fmtChar s \<Longrightarrow> CHR ''.'' \<notin> set s \<and> CHR '','' \<notin> set s"
  using fmtChar_no_fraction by (auto simp: list_all_iff)

lemma go_div_nonneg: "0 \<le> d \<Longrightarrow> 0 < b \<Longrightarrow> go_div d b = d div b"
  by (simp add: go_div_def sgn_if)

lemma go_div_neg: "d < 0 \<Longrightarrow> 0 < b \<Longrightarrow> go_div d b = - ((- d) div b)"
  by (simp add: go_div_def sgn_if)

lemma go_div_1000_bounds:
  assumes "- 9223372036999 \<le> d" "d \<le> 9223372036999"
  shows "- 9223372036 \<le> go_div d 1000 \<and> go_div d 1000 \<le> 9223372036"
proof (cases "d < 0")
  case True
  then have g: "go_div d 1000 = - ((- d) div 1000)"
    by (simp add: go_div_neg)
  from assms have "(- d) div 1000 \<le> 9223372036999 div 1000"
    by (intro zdiv_mono1) simp_all
  moreover from True have "0 \<le> (- d) div 1000"
    by (simp add: pos_imp_zdiv_nonneg_iff)
  ultimately show ?thesis
    using g by simp
next
  case False
  then have g: "go_div d 1000 = d div 1000"
    by (simp add: go_div_nonneg)
  from assms have "d div 1000 \<le> 9223372036999 div 1000"
    by (intro zdiv_mono1) simp_all
  moreover from False have "0 \<le> d div 1000"
    by (simp add: pos_imp_zdiv_nonneg_iff)
  ultimately show ?thesis
    using g by simp
qed

lemma go_div_1000_rest: "\<bar>d - 1000 * go_div d 1000\<bar> < 1000"
proof (cases "d < 0")
  case True
  then have g: "go_div d 1000 = - ((- d) div 1000)"
    by (simp add: go_div_neg)
  show ?thesis
    unfolding g
    using mult_div_mod_eq [of 1000 "- d"] pos_mod_bound [of 1000 "- d"]
      pos_mod_sign [of 1000 "- d"]
    by linarith
next
  case False
  then have g: "go_div d 1000 = d div 1000"
    by (simp add: go_div_nonneg)
  show ?thesis
    unfolding g
    using mult_div_mod_eq [of 1000 d] pos_mod_bound [of 1000 d] pos_mod_sign [of 1000 d]
    by linarith
qed

lemma wrap64_id: "int64 x \<Longrightarrow> wrap64 x = x"
  by (simp add: wrap64_def int64_def)

lemma handedDuration_exact:
  assumes "- 9223372036999 \<le> d" "d \<le> 9223372036999"
  shows "handedDuration d = go_div d 1000 * Second"
proof -
  from assms have "- 9223372036 \<le> go_div d 1000 \<and> go_div d 1000 \<le> 9223372036"
    by (rule go_div_1000_bounds)
  then have "int64 (go_div d 1000 * Second)"
    by (simp add: int64_def Second_def)
  then show ?thesis
    by (simp add: handedDuration_def wrap64_id)
qed

lemma go_div_whole: "go_div (k * Second) Second = k"
  by (simp add: go_div_def Second_def sgn_if abs_mult)

lemma go_mod_whole: "go_mod (k * Second) Second = 0"
  by (simp add: go_mod_def go_div_whole)

lemma secondsText_whole: "secondsText fmtFrac (k * Second) = Itoa k"
  by (simp add: secondsText_def go_mod_whole go_div_whole)

lemma time_Add_whole:
  "0 \<le> nsec t \<Longrightarrow> nsec t < 1000000000 \<Longrightarrow>
     time_Add t (k * Second) = \<lparr>unixSec = unixSec t + k, nsec = nsec t\<rparr>"
  using go_div_whole [of k] go_mod_whole [of k]
  by (simp add: time_Add_def Let_def Second_def)

lemma convertTimestamp_no_fraction:
  "convertTimestamp ts d = Inr r \<Longrightarrow> CHR ''.'' \<notin> set r \<and> CHR '','' \<notin> set r"
  using no_fraction [OF time_Format_chars]
  by (auto simp: convertTimestamp_cases split: option.splits)

subsection \<open>The authorization URL\<close>

lemma foldl_scopes:
  "foldl (\<lambda>acc s. acc @ s @ ''+'') acc scopes = acc @ concat (map (\<lambda>s. s @ ''+'') scopes)"
  by (induction scopes arbitrary: acc) simp_all

lemma concat_scopes:
  "scopes \<noteq> [] \<Longrightarrow> concat (map (\<lambda>s. s @ ''+'') scopes) = joinPlus scopes @ ''+''"
  by (induction scopes rule: joinPlus.induct) simp_all

lemma scopeStringBuilder_join: "scopeStringBuilder scopes = joinPlus scopes"
proof (cases "scopes = []")
  case True
  then show ?thesis
    by (simp add: scopeStringBuilder_def)
next
  case False
  then have "foldl (\<lambda>acc s. acc @ s @ ''+'') [] scopes = joinPlus scopes @ ''+''"
    by (simp add: foldl_scopes concat_scopes)
  then show ?thesis
    by (simp add: scopeStringBuilder_def Let_def butlast_append)
qed

lemma charset_length: "length charset = 62"
  by (simp add: charset_def)

lemma random_loop_delivers:
  "delivers k rs \<Longrightarrow>
     \<exists>s. random_loop k rs = (Inr s, drop k rs) \<and> length s = k \<and> set s \<subseteq> set charset"
proof (induction k arbitrary: rs)
  case 0
  then show ?case by simp
next
  case (Suc k)
  from Suc.prems obtain n rs' where rs: "rs = Some n # rs'" and d: "delivers k rs'"
    by (cases rs) (auto simp: delivers_def)
  from Suc.IH [OF d] obtain s where
    s: "random_loop k rs' = (Inr s, drop k rs')" "length s = k" "set s \<subseteq> set charset"
    by blast
  have "n mod 62 < length charset"
    by (simp add: charset_length)
  then have "charset ! (n mod 62) \<in> set charset"
    by (rule nth_mem)
  with s rs show ?case
    by (simp add: charset_length)
qed

lemma random_loop_fails:
  "\<not> delivers k rs \<Longrightarrow> fst (random_loop k rs) = Inl RandFailure"
proof (induction k arbitrary: rs)
  case 0
  then show ?case by (simp add: delivers_def)
next
  case (Suc k)
  show ?case
  proof (cases rs)
    case Nil
    then show ?thesis by simp
  next
    case (Cons d rs')
    show ?thesis
    proof (cases d)
      case None
      with Cons show ?thesis by simp
    next
      case (Some n)
      with Cons Suc.prems have "\<not> delivers k rs'"
        by (simp add: delivers_def)
      from Suc.IH [OF this] Cons Some show ?thesis
        by (cases "random_loop k rs'") (auto split: sum.splits)
    qed
  qed
qed

lemma urlEncode_unreserved: "set s \<subseteq> set rfc3986Chars \<Longrightarrow> urlEncode s = s"
  by (induction s) (simp_all add: urlEncode_def escapeByte_def)

text \<open>
  What \<open>getAuthURL\<close> computes. With a random reader that delivers 32 draws, it
  returns the fixed address and \<open>response_type=token\<close>, then the client id and the
  redirect URL as they are configured (inserted by \<open>%s\<close>, not URL-encoded), the scopes
  joined with \<open>+\<close> (nothing for an empty list), the challenge,
  \<open>code_challenge_method=S256\<close>, and a state of 32 characters of the alphanumeric
  alphabet drawn for this call, which is also stored as the expected correlation value.
  A failing reader is a panic. When client id and redirect URL consist of unreserved
  characters, the URL is the one with URL-encoded values. For the configuration of the
  test, the query parameters, read back as the test reads them, are the listed ones.
\<close>

theorem getAuthURL_spec:
  "(delivers 32 rs \<longrightarrow>
      (\<exists>state. getAuthURL challenge cfg s rs =
          (Inr (''https://www.fitbit.com/oauth2/authorize?response_type=token&client_id=''
                @ ClientID cfg @ ''&redirect_uri='' @ RedirectURL cfg
                @ ''&scope='' @ joinPlus (Scopes cfg)
                @ ''&code_challenge='' @ challenge @ ''&code_challenge_method=S256&state=''
                @ state,
                s\<lparr>stateAuth := state\<rparr>), drop 32 rs)
         \<and> length state = 32 \<and> set state \<subseteq> set charset))
   \<and> (\<not> delivers 32 rs \<longrightarrow> fst (getAuthURL challenge cfg s rs) = Inl RandFailure)
   \<and> joinPlus [] = []
   \<and> (set (ClientID cfg) \<subseteq> set rfc3986Chars \<and> set (RedirectURL cfg) \<subseteq> set rfc3986Chars \<longrightarrow>
        authURL (ClientID cfg) (RedirectURL cfg) (scopeStringBuilder (Scopes cfg)) challenge st
          = spec_authURL challenge cfg st)
   \<and> fst (getAuthURL ''testCodeChallenge'' exampleConfig exampleSession (map Some [0..<32]))
       = Inr (''https://www.fitbit.com/oauth2/authorize?response_type=token&client_id=test-client-id&redirect_uri=https://test.com/redirect&scope=activity+heartrate+profile&code_challenge=testCodeChallenge&code_challenge_method=S256&state=abcdefghijklmnopqrstuvwxyz012345'',
              exampleSession\<lparr>stateAuth := ''abcdefghijklmnopqrstuvwxyz012345''\<rparr>)
   \<and> queryParams ''https://www.fitbit.com/oauth2/authorize?response_type=token&client_id=test-client-id&redirect_uri=https://test.com/redirect&scope=activity+heartrate+profile&code_challenge=testCodeChallenge&code_challenge_method=S256&state=abcdefghijklmnopqrstuvwxyz012345''
       = [(''response_type'', ''token''), (''client_id'', ''test-client-id''),
          (''redirect_uri'', ''https://test.com/redirect''),
          (''scope'', ''activity heartrate profile''),
          (''code_challenge'', ''testCodeChallenge''),
          (''code_challenge_method'', ''S256''),
          (''state'', ''abcdefghijklmnopqrstuvwxyz012345'')]"
proof (intro conjI impI)
  assume "delivers 32 rs"
  then obtain st where st: "random_loop 32 rs = (Inr st, drop 32 rs)" "length st = 32"
      "set st \<subseteq> set charset"
    using random_loop_delivers by blast
  then show "\<exists>state. getAuthURL challenge cfg s rs =
          (Inr (''https://www.fitbit.com/oauth2/authorize?response_type=token&client_id=''
                @ ClientID cfg @ ''&redirect_uri='' @ RedirectURL cfg
                @ ''&scope='' @ joinPlus (Scopes cfg)
                @ ''&code_challenge='' @ challenge @ ''&code_challenge_method=S256&state=''
                @ state,
                s\<lparr>stateAuth := state\<rparr>), drop 32 rs)
         \<and> length state = 32 \<and> set state \<subseteq> set charset"
    by (simp add: getAuthURL_def generateRandomString_def authURL_def scopeStringBuilder_join)
next
  assume "\<not> delivers 32 rs"
  then have "fst (random_loop 32 rs) = Inl RandFailure"
    by (rule random_loop_fails)
  then show "fst (getAuthURL challenge cfg s rs) = Inl RandFailure"
    by (cases "random_loop 32 rs") (simp add: getAuthURL_def generateRandomString_def)
next
  show "joinPlus [] = []"
    by simp
next
  assume "set (ClientID cfg) \<subseteq> set rfc3986Chars \<and> set (RedirectURL cfg) \<subseteq> set rfc3986Chars"
  then show "authURL (ClientID cfg) (RedirectURL cfg) (scopeStringBuilder (Scopes cfg)) challenge st
          = spec_authURL challenge cfg st"
    by (simp add: spec_authURL_def urlEncode_unreserved scopeStringBuilder_join)
next
  show "fst (getAuthURL ''testCodeChallenge'' exampleConfig exampleSession (map Some [0..<32]))
       = Inr (''https://www.fitbit.com/oauth2/authorize?response_type=token&client_id=test-client-id&redirect_uri=https://test.com/redirect&scope=activity+heartrate+profile&code_challenge=testCodeChallenge&code_challenge_method=S256&state=abcdefghijklmnopqrstuvwxyz012345'',
              exampleSession\<lparr>stateAuth := ''abcdefghijklmnopqrstuvwxyz012345''\<rparr>)"
    by code_simp
next
  show "queryParams ''https://www.fitbit.com/oauth2/authorize?response_type=token&client_id=test-client-id&redirect_uri=https://test.com/redirect&scope=activity+heartrate+profile&code_challenge=testCodeChallenge&code_challenge_method=S256&state=abcdefghijklmnopqrstuvwxyz012345''
       = [(''response_type'', ''token''), (''client_id'', ''test-client-id''),
          (''redirect_uri'', ''https://test.com/redirect''),
          (''scope'', ''activity heartrate profile''),
          (''code_challenge'', ''testCodeChallenge''),
          (''code_challenge_method'', ''S256''),
          (''state'', ''abcdefghijklmnopqrstuvwxyz012345'')]"
    by code_simp
qed

theorem getAuthURL_spec_witness:
  "(\<exists>state. getAuthURL ''c'' exampleConfigQuery exampleSession (map Some [0..<32]) =
      (Inr (''https://www.fitbit.com/oauth2/authorize?response_type=token&client_id=test-client-id&redirect_uri=http://localhost:8080/callback?a=1&b=2&scope=activity&code_challenge=c&code_challenge_method=S256&state=''
            @ state, exampleSession\<lparr>stateAuth := state\<rparr>), [])
      \<and> length state = 32)
   \<and> fst (getAuthURL ''c'' exampleConfigQuery exampleSession [Some 1, None]) = Inl RandFailure
   \<and> authURL ''id-1'' ''localhost'' (scopeStringBuilder []) ''c'' ''s''
       = spec_authURL ''c'' \<lparr>ClientID = ''id-1'', ClientSecret = [], RedirectURL = ''localhost'',
                              Scopes = []\<rparr> ''s''"
proof (intro conjI)
  have d: "delivers 32 (map Some [0..<32])"
    by (simp add: delivers_def list_all_iff)
  from getAuthURL_spec [of "map Some [0..<32]" "''c''" exampleConfigQuery exampleSession,
      THEN conjunct1, rule_format, OF d]
  obtain state where
    "getAuthURL ''c'' exampleConfigQuery exampleSession (map Some [0..<32]) =
          (Inr (''https://www.fitbit.com/oauth2/authorize?response_type=token&client_id=''
                @ ClientID exampleConfigQuery @ ''&redirect_uri=''
                @ RedirectURL exampleConfigQuery
                @ ''&scope='' @ joinPlus (Scopes exampleConfigQuery)
                @ ''&code_challenge='' @ ''c'' @ ''&code_challenge_method=S256&state=''
                @ state,
                exampleSession\<lparr>stateAuth := state\<rparr>), drop 32 (map Some [0..<32]))"
    and "length state = 32"
    by blast
  then show "\<exists>state. getAuthURL ''c'' exampleConfigQuery exampleSession (map Some [0..<32]) =
      (Inr (''https://www.fitbit.com/oauth2/authorize?response_type=token&client_id=test-client-id&redirect_uri=http://localhost:8080/callback?a=1&b=2&scope=activity&code_challenge=c&code_challenge_method=S256&state=''
            @ state, exampleSession\<lparr>stateAuth := state\<rparr>), [])
      \<and> length state = 32"
    by (intro exI [of _ state]) (simp add: exampleConfigQuery_def)
next
  have n: "\<not> delivers 32 [Some 1, None]"
    by (simp add: delivers_def)
  from getAuthURL_spec [of "[Some 1, None]" "''c''" exampleConfigQuery exampleSession,
      THEN conjunct2, THEN conjunct1, rule_format, OF n]
  show "fst (getAuthURL ''c'' exampleConfigQuery exampleSession [Some 1, None]) = Inl RandFailure" .
next
  have u: "set (ClientID \<lparr>ClientID = ''id-1'', ClientSecret = [], RedirectURL = ''localhost'',
                              Scopes = []\<rparr>) \<subseteq> set rfc3986Chars
      \<and> set (RedirectURL \<lparr>ClientID = ''id-1'', ClientSecret = [], RedirectURL = ''localhost'',
                              Scopes = []\<rparr>) \<subseteq> set rfc3986Chars"
    by (simp add: rfc3986Chars_def)
  from getAuthURL_spec [of "[]" "''c''"
      "\<lparr>ClientID = ''id-1'', ClientSecret = [], RedirectURL = ''localhost'', Scopes = []\<rparr>"
      exampleSession "''s''",
      THEN conjunct2, THEN conjunct2, THEN conjunct2, THEN conjunct1, rule_format, OF u]
  show "authURL ''id-1'' ''localhost'' (scopeStringBuilder []) ''c'' ''s''
       = spec_authURL ''c'' \<lparr>ClientID = ''id-1'', ClientSecret = [], RedirectURL = ''localhost'',
                              Scopes = []\<rparr> ''s''"
    by simp
qed

text \<open>
  C1. The authorization URL is to carry, as query parameters, \<open>response_type=token\<close>,
  the URL-encoded client id, the URL-encoded redirect URL, the scopes joined with \<open>+\<close>,
  the challenge, \<open>code_challenge_method=S256\<close> and a fresh state; the repository's test
  \<^verbatim>\<open>TestGetAuthURL\<close> writes the expected URL with
  \<open>redirect_uri=https%3A%2F%2Ftest.com%2Fredirect\<close>. The code does not do this:
  \<open>getAuthURL\<close> puts client id and redirect URL into the URL as they are. For the
  configuration of the test the URL built is not the one with the encoded values. For a
  redirect URL with a query of its own, \<open>http://localhost:8080/callback?a=1&b=2\<close>, the
  URL returned, read back into its parameters, gives a \<open>redirect_uri\<close> cut at the \<open>&\<close>,
  which is not the configured redirect URL, and a parameter \<open>b\<close> that nobody asked for;
  the URL with the encoded values gives back the configured redirect URL.
\<close>

theorem getAuthURL_not_encoded:
  "urlEncode ''https://test.com/redirect'' = ''https%3A%2F%2Ftest.com%2Fredirect''
   \<and> authURL (ClientID exampleConfig) (RedirectURL exampleConfig)
         (scopeStringBuilder (Scopes exampleConfig)) ''testCodeChallenge'' ''s''
       \<noteq> spec_authURL ''testCodeChallenge'' exampleConfig ''s''
   \<and> fst (getAuthURL ''c'' exampleConfigQuery exampleSession (map Some [0..<32]))
       = Inr (''https://www.fitbit.com/oauth2/authorize?response_type=token&client_id=test-client-id&redirect_uri=http://localhost:8080/callback?a=1&b=2&scope=activity&code_challenge=c&code_challenge_method=S256&state=abcdefghijklmnopqrstuvwxyz012345'',
              exampleSession\<lparr>stateAuth := ''abcdefghijklmnopqrstuvwxyz012345''\<rparr>)
   \<and> queryParams ''https://www.fitbit.com/oauth2/authorize?response_type=token&client_id=test-client-id&redirect_uri=http://localhost:8080/callback?a=1&b=2&scope=activity&code_challenge=c&code_challenge_method=S256&state=abcdefghijklmnopqrstuvwxyz012345''
       = [(''response_type'', ''token''), (''client_id'', ''test-client-id''),
          (''redirect_uri'', ''http://localhost:8080/callback?a=1''), (''b'', ''2''),
          (''scope'', ''activity''), (''code_challenge'', ''c''),
          (''code_challenge_method'', ''S256''),
          (''state'', ''abcdefghijklmnopqrstuvwxyz012345'')]
   \<and> RedirectURL exampleConfigQuery \<noteq> ''http://localhost:8080/callback?a=1''
   \<and> urlEncode (RedirectURL exampleConfigQuery)
       = ''http%3A%2F%2Flocalhost%3A8080%2Fcallback%3Fa%3D1%26b%3D2''
   \<and> queryParams (spec_authURL ''c'' exampleConfigQuery ''abcdefghijklmnopqrstuvwxyz012345'')
       = [(''response_type'', ''token''), (''client_id'', ''test-client-id''),
          (''redirect_uri'', ''http://localhost:8080/callback?a=1&b=2''),
          (''scope'', ''activity''), (''code_challenge'', ''c''),
          (''code_challenge_method'', ''S256''),
          (''state'', ''abcdefghijklmnopqrstuvwxyz012345'')]"
  by code_simp

subsection \<open>The timeline transformer\<close>

lemma plain_tag: "CHR '':'' \<notin> set tag \<Longrightarrow> spaceDecompose tag = ([], tag)"
  by (simp add: spaceDecompose_def)

lemma isTag_plain:
  "CHR '':'' \<notin> set tag \<Longrightarrow> isTag tag t \<longleftrightarrow> (\<exists>sp as ch. t = Element sp tag as ch)"
  by (cases t) (auto simp: isTag_def plain_tag spaceMatch_def)

lemma NewElement_plain: "CHR '':'' \<notin> set tag \<Longrightarrow> NewElement tag = Element [] tag [] []"
  by (simp add: NewElement_def plain_tag)

lemma textElement_plain:
  "CHR '':'' \<notin> set tag \<Longrightarrow>
     textElement tag text = Element [] tag [] (if text = [] then [] else [CharData text])"
  by (simp add: textElement_def NewElement_plain SetText_def)

lemma find_holds: "find p ts = Some c \<Longrightarrow> p c"
  by (induction ts) (auto split: if_splits)

lemma isTag_Element:
  "isTag tag c \<Longrightarrow> \<exists>sp as ch. c = Element sp (snd (spaceDecompose tag)) as ch"
  by (cases c) (auto simp: isTag_def)

lemma find_isTag_Element:
  "find (isTag tag) ts = Some c \<Longrightarrow> \<exists>sp as ch. c = Element sp (snd (spaceDecompose tag)) as ch"
  by (intro isTag_Element) (rule find_holds)

lemma SelectElement_Element:
  "SelectElement tag e = Some c \<Longrightarrow> \<exists>sp as ch. c = Element sp (snd (spaceDecompose tag)) as ch"
  unfolding SelectElement_def by (rule find_isTag_Element)

lemma SelectElement_setAttrValue [simp]:
  "SelectElement tag (setAttrValue k v e) = SelectElement tag e"
  by (simp add: SelectElement_def setAttrValue_def)

lemma swimActivity_ok:
  assumes "SelectAttr ''Sport'' root = Some a" "SelectElement ''Id'' root = Some idEl"
    "SelectElement ''Creator'' root = Some cr"
  shows "swimActivity fmtFrac actName totalTime distMeters calories root =
     Inr (AddChild (swimLap fmtFrac (Text idEl) totalTime distMeters calories)
            (onElement ''Creator'' (AddChild (Element [] ''Name'' [] [CharData ''Fitbit'']))
               (setAttrValue ''Sport'' actName root)))"
  using assms by (simp add: swimActivity_def Let_def textElement_plain)

lemma swimLap_shape:
  "swimLap fmtFrac idText totalTime distMeters calories =
     Element [] ''Lap'' [Attr [] ''StartTime'' (dropError (convertTimestamp idText 0))]
       [textElement ''TotalTimeSeconds'' (secondsText fmtFrac totalTime),
        textElement ''DistanceMeters'' distMeters,
        textElement ''Calories'' calories,
        Element [] ''Intensity'' [] [CharData ''Active''],
        Element [] ''TriggerMethod'' [] [CharData ''Manual''],
        Element [] ''Track'' []
          [Element [] ''Trackpoint'' []
             [textElement ''Time'' (dropError (convertTimestamp idText 0)),
              Element [] ''DistanceMeters'' [] [CharData ''0'']],
           Element [] ''Trackpoint'' []
             [textElement ''Time'' (dropError (convertTimestamp idText totalTime)),
              textElement ''DistanceMeters'' distMeters]]]"
proof -
  have t: "textElement ''Intensity'' ''Active'' = Element [] ''Intensity'' [] [CharData ''Active'']"
    "textElement ''TriggerMethod'' ''Manual'' = Element [] ''TriggerMethod'' [] [CharData ''Manual'']"
    "textElement ''DistanceMeters'' ''0'' = Element [] ''DistanceMeters'' [] [CharData ''0'']"
    by (simp_all add: textElement_plain)
  show ?thesis
    unfolding swimLap_def Let_def t
    by (simp add: NewElement_plain CreateAttr_def AddChild_def plain_tag)
qed

lemma onActivity_ok:
  assumes "SelectElement ''TrainingCenterDatabase'' xmlDoc = Some tcd"
    "SelectElement ''Activities'' tcd = Some acts" "SelectElement ''Activity'' acts = Some root"
    "f root = Inr root'"
  shows "onActivity f xmlDoc =
     Inr (onElement ''TrainingCenterDatabase''
            (onElement ''Activities'' (onElement ''Activity'' (\<lambda>_. root'))) xmlDoc)"
  using assms by (simp add: onActivity_def)

lemma updFirst_const: "find p xs = Some x \<Longrightarrow> updFirst p (\<lambda>_. g x) xs = updFirst p g xs"
  by (induction xs) (auto split: if_splits)

lemma onElement_const:
  "SelectElement tag e = Some c \<Longrightarrow> onElement tag (\<lambda>_. g c) e = onElement tag g e"
  by (simp add: onElement_def SelectElement_def updFirst_const)

lemma find_updFirst:
  "find p xs = Some x \<Longrightarrow> p (f x) \<Longrightarrow> find p (updFirst p f xs) = Some (f x)"
  by (induction xs) (auto split: if_splits)

lemma isTag_onElement [simp]:
  "isTag tag (onElement tag' f (Element sp t as ch)) = isTag tag (Element sp t as ch)"
  by (simp add: isTag_def onElement_def)

lemma isTag_AddChild [simp]:
  "isTag tag (AddChild c (Element sp t as ch)) = isTag tag (Element sp t as ch)"
  by (simp add: isTag_def AddChild_def)

lemma SelectElement_onElement:
  assumes "SelectElement tag e = Some c" "isTag tag (f c)"
  shows "SelectElement tag (onElement tag f e) = Some (f c)"
  using assms by (simp add: SelectElement_def onElement_def find_updFirst)

lemma count_updFirst:
  "find p ch = Some c \<Longrightarrow>
     sum_list (map (countTag tg) (updFirst p f ch)) + countTag tg c
       = sum_list (map (countTag tg) ch) + countTag tg (f c)"
  by (induction ch) (auto split: if_splits)

lemma count_onElement:
  assumes "SelectElement tag (Element sp t as ch) = Some c"
    "countTag tg (f c) = countTag tg c + k"
  shows "countTag tg (onElement tag f (Element sp t as ch))
     = countTag tg (Element sp t as ch) + k"
  using assms count_updFirst [of "isTag tag" ch c tg f]
  by (simp add: SelectElement_def onElement_def)

lemma count_AddChild:
  "countTag tg (AddChild c (Element sp t as ch))
     = countTag tg (Element sp t as ch) + countTag tg c"
  by (simp add: AddChild_def)

lemma updFirst_cong_found:
  "find p xs = Some x \<Longrightarrow> f x = g x \<Longrightarrow> updFirst p f xs = updFirst p g xs"
  by (induction xs) (auto split: if_splits)

lemma onElement_cong_found:
  "SelectElement tag e = Some c \<Longrightarrow> f c = g c \<Longrightarrow> onElement tag f e = onElement tag g e"
  unfolding onElement_def SelectElement_def
  using updFirst_cong_found [of "isTag tag" "Child e" c f g] by simp

lemma SelectElement_holds: "SelectElement tag e = Some c \<Longrightarrow> isTag tag c"
  unfolding SelectElement_def by (rule find_holds)

lemma deviceName_ok:
  "SelectElement ''Creator'' act = Some cr \<Longrightarrow>
     deviceName act = Inr (onElement ''Creator'' (AddChild (Element [] ''Name'' [] [CharData ''Fitbit''])) act)"
  by (simp add: deviceName_def textElement_plain)

lemma selectCreator_Some:
  assumes "selectCreator xmlDoc = Some cr"
  obtains tcd acts act where "SelectElement ''TrainingCenterDatabase'' xmlDoc = Some tcd"
    "SelectElement ''Activities'' tcd = Some acts" "SelectElement ''Activity'' acts = Some act"
    "SelectElement ''Creator'' act = Some cr"
proof (cases "SelectElement ''TrainingCenterDatabase'' xmlDoc")
  case None
  with assms show ?thesis by (simp add: selectCreator_def selectActivity_def)
next
  case tcd: (Some tcd)
  show ?thesis
  proof (cases "SelectElement ''Activities'' tcd")
    case None
    with tcd assms show ?thesis by (simp add: selectCreator_def selectActivity_def)
  next
    case acts: (Some acts)
    show ?thesis
    proof (cases "SelectElement ''Activity'' acts")
      case None
      with tcd acts assms show ?thesis by (simp add: selectCreator_def selectActivity_def)
    next
      case act: (Some act)
      with tcd acts assms have "SelectElement ''Creator'' act = Some cr"
        by (simp add: selectCreator_def selectActivity_def)
      with tcd acts act that show ?thesis by blast
    qed
  qed
qed

lemma selectCreator_None:
  assumes "selectCreator xmlDoc = None"
  shows "onActivity deviceName xmlDoc = Inl NilPointer"
proof (cases "SelectElement ''TrainingCenterDatabase'' xmlDoc")
  case None
  then show ?thesis by (simp add: onActivity_def)
next
  case tcd: (Some tcd)
  show ?thesis
  proof (cases "SelectElement ''Activities'' tcd")
    case None
    with tcd show ?thesis by (simp add: onActivity_def)
  next
    case acts: (Some acts)
    show ?thesis
    proof (cases "SelectElement ''Activity'' acts")
      case None
      with tcd acts show ?thesis by (simp add: onActivity_def)
    next
      case act: (Some act)
      with tcd acts assms have "SelectElement ''Creator'' act = None"
        by (simp add: selectCreator_def selectActivity_def)
      with tcd acts act show ?thesis
        by (simp add: onActivity_def deviceName_def)
    qed
  qed
qed

lemma device_path:
  assumes s: "SelectElement ''TrainingCenterDatabase'' xmlDoc = Some tcd"
    "SelectElement ''Activities'' tcd = Some acts" "SelectElement ''Activity'' acts = Some act"
    "SelectElement ''Creator'' act = Some cr"
  shows "onActivity deviceName xmlDoc =
     Inr (onElement ''TrainingCenterDatabase''
            (onElement ''Activities''
               (onElement ''Activity''
                  (onElement ''Creator''
                     (AddChild (Element [] ''Name'' [] [CharData ''Fitbit'']))))) xmlDoc)"
proof -
  let ?g = "onElement ''Creator'' (AddChild (Element [] ''Name'' [] [CharData ''Fitbit'']))"
  have 1: "onElement ''Activity'' (\<lambda>_. ?g act) acts = onElement ''Activity'' ?g acts"
    using s(3) by (rule onElement_const)
  have 2: "onElement ''Activities'' (onElement ''Activity'' (\<lambda>_. ?g act)) tcd
      = onElement ''Activities'' (onElement ''Activity'' ?g) tcd"
    using s(2) 1 by (rule onElement_cong_found)
  have 3: "onElement ''TrainingCenterDatabase''
        (onElement ''Activities'' (onElement ''Activity'' (\<lambda>_. ?g act))) xmlDoc
      = onElement ''TrainingCenterDatabase''
        (onElement ''Activities'' (onElement ''Activity'' ?g)) xmlDoc"
    using s(1) 2 by (rule onElement_cong_found)
  show ?thesis
    using onActivity_ok [where f = deviceName, OF s(1) s(2) s(3) deviceName_ok [OF s(4)]] 3
    by simp
qed

lemma device_count:
  assumes s: "SelectElement ''TrainingCenterDatabase'' (Element sp t as ch) = Some tcd"
    "SelectElement ''Activities'' tcd = Some acts" "SelectElement ''Activity'' acts = Some act"
    "SelectElement ''Creator'' act = Some cr"
  shows "countTag tg (onElement ''TrainingCenterDatabase''
            (onElement ''Activities''
               (onElement ''Activity''
                  (onElement ''Creator''
                     (AddChild (Element [] ''Name'' [] [CharData ''Fitbit'']))))) (Element sp t as ch))
     = countTag tg (Element sp t as ch) + (if tg = ''Name'' then 1 else 0)"
proof -
  let ?k = "if tg = ''Name'' then 1 else 0 :: nat"
  let ?n = "Element [] ''Name'' [] [CharData ''Fitbit'']"
  obtain sp4 as4 ch4 where cr: "cr = Element sp4 ''Creator'' as4 ch4"
    using SelectElement_Element [OF s(4)] by (auto simp: plain_tag)
  obtain sp3 as3 ch3 where act: "act = Element sp3 ''Activity'' as3 ch3"
    using SelectElement_Element [OF s(3)] by (auto simp: plain_tag)
  obtain sp2 as2 ch2 where acts: "acts = Element sp2 ''Activities'' as2 ch2"
    using SelectElement_Element [OF s(2)] by (auto simp: plain_tag)
  obtain sp1 as1 ch1 where tcd: "tcd = Element sp1 ''TrainingCenterDatabase'' as1 ch1"
    using SelectElement_Element [OF s(1)] by (auto simp: plain_tag)
  have c4: "countTag tg (AddChild ?n cr) = countTag tg cr + ?k"
    unfolding cr by (simp add: AddChild_def)
  have c3: "countTag tg (onElement ''Creator'' (AddChild ?n) act) = countTag tg act + ?k"
    using s(4) c4 unfolding act by (rule count_onElement)
  have c2: "countTag tg (onElement ''Activity'' (onElement ''Creator'' (AddChild ?n)) acts)
      = countTag tg acts + ?k"
    using s(3) c3 unfolding acts by (rule count_onElement)
  have c1: "countTag tg (onElement ''Activities''
        (onElement ''Activity'' (onElement ''Creator'' (AddChild ?n))) tcd)
      = countTag tg tcd + ?k"
    using s(2) c2 unfolding tcd by (rule count_onElement)
  show ?thesis
    using s(1) c1 by (rule count_onElement)
qed

lemma device_select:
  assumes s: "SelectElement ''TrainingCenterDatabase'' xmlDoc = Some tcd"
    "SelectElement ''Activities'' tcd = Some acts" "SelectElement ''Activity'' acts = Some act"
    "SelectElement ''Creator'' act = Some cr"
  shows "selectCreator (onElement ''TrainingCenterDatabase''
            (onElement ''Activities''
               (onElement ''Activity''
                  (onElement ''Creator''
                     (AddChild (Element [] ''Name'' [] [CharData ''Fitbit'']))))) xmlDoc)
     = Some (AddChild (Element [] ''Name'' [] [CharData ''Fitbit'']) cr)"
proof -
  let ?n = "Element [] ''Name'' [] [CharData ''Fitbit'']"
  obtain sp4 as4 ch4 where cr: "cr = Element sp4 ''Creator'' as4 ch4"
    using SelectElement_Element [OF s(4)] by (auto simp: plain_tag)
  obtain sp3 as3 ch3 where act: "act = Element sp3 ''Activity'' as3 ch3"
    using SelectElement_Element [OF s(3)] by (auto simp: plain_tag)
  obtain sp2 as2 ch2 where acts: "acts = Element sp2 ''Activities'' as2 ch2"
    using SelectElement_Element [OF s(2)] by (auto simp: plain_tag)
  obtain sp1 as1 ch1 where tcd: "tcd = Element sp1 ''TrainingCenterDatabase'' as1 ch1"
    using SelectElement_Element [OF s(1)] by (auto simp: plain_tag)
  have 4: "SelectElement ''Creator'' (onElement ''Creator'' (AddChild ?n) act)
      = Some (AddChild ?n cr)"
    using s(4) SelectElement_holds [OF s(4)]
    by (intro SelectElement_onElement) (simp_all add: cr)
  have 3: "SelectElement ''Activity'' (onElement ''Activity'' (onElement ''Creator'' (AddChild ?n)) acts)
      = Some (onElement ''Creator'' (AddChild ?n) act)"
    using s(3) SelectElement_holds [OF s(3)]
    by (intro SelectElement_onElement) (simp_all add: act)
  have 2: "SelectElement ''Activities''
        (onElement ''Activities'' (onElement ''Activity'' (onElement ''Creator'' (AddChild ?n))) tcd)
      = Some (onElement ''Activity'' (onElement ''Creator'' (AddChild ?n)) acts)"
    using s(2) SelectElement_holds [OF s(2)]
    by (intro SelectElement_onElement) (simp_all add: acts)
  have 1: "SelectElement ''TrainingCenterDatabase''
        (onElement ''TrainingCenterDatabase''
          (onElement ''Activities'' (onElement ''Activity'' (onElement ''Creator'' (AddChild ?n))))
          xmlDoc)
      = Some (onElement ''Activities''
          (onElement ''Activity'' (onElement ''Creator'' (AddChild ?n))) tcd)"
    using s(1) SelectElement_holds [OF s(1)]
    by (intro SelectElement_onElement) (simp_all add: tcd)
  show ?thesis
    by (simp add: selectCreator_def selectActivity_def 1 2 3 4)
qed

lemma swim_path:
  assumes s: "SelectElement ''TrainingCenterDatabase'' xmlDoc = Some tcd"
    "SelectElement ''Activities'' tcd = Some acts" "SelectElement ''Activity'' acts = Some root"
    and r: "SelectAttr ''Sport'' root = Some a" "SelectElement ''Id'' root = Some idEl"
    "SelectElement ''Creator'' root = Some cr"
  shows "injectDoc fmtFrac xmlDoc ''Swim'' totalTime distMeters calories =
     Inr (onElement ''TrainingCenterDatabase''
            (onElement ''Activities''
               (onElement ''Activity''
                  (\<lambda>r. AddChild (swimLap fmtFrac (Text idEl) totalTime distMeters calories)
                         (onElement ''Creator''
                            (AddChild (Element [] ''Name'' [] [CharData ''Fitbit'']))
                            (setAttrValue ''Sport'' ''Swim'' r))))) xmlDoc)"
proof -
  let ?g = "\<lambda>r. AddChild (swimLap fmtFrac (Text idEl) totalTime distMeters calories)
                (onElement ''Creator'' (AddChild (Element [] ''Name'' [] [CharData ''Fitbit'']))
                   (setAttrValue ''Sport'' ''Swim'' r))"
  have f: "swimActivity fmtFrac ''Swim'' totalTime distMeters calories root = Inr (?g root)"
    using r by (rule swimActivity_ok)
  have 1: "onElement ''Activity'' (\<lambda>_. ?g root) acts = onElement ''Activity'' ?g acts"
    using s(3) by (rule onElement_const)
  have 2: "onElement ''Activities'' (onElement ''Activity'' (\<lambda>_. ?g root)) tcd
      = onElement ''Activities'' (onElement ''Activity'' ?g) tcd"
    using s(2) 1 by (rule onElement_cong_found)
  have 3: "onElement ''TrainingCenterDatabase''
        (onElement ''Activities'' (onElement ''Activity'' (\<lambda>_. ?g root))) xmlDoc
      = onElement ''TrainingCenterDatabase''
        (onElement ''Activities'' (onElement ''Activity'' ?g)) xmlDoc"
    using s(1) 2 by (rule onElement_cong_found)
  have "onActivity (swimActivity fmtFrac ''Swim'' totalTime distMeters calories) xmlDoc
      = Inr (onElement ''TrainingCenterDatabase''
        (onElement ''Activities'' (onElement ''Activity'' ?g)) xmlDoc)"
    using onActivity_ok
      [where f = "swimActivity fmtFrac ''Swim'' totalTime distMeters calories",
        OF s(1) s(2) s(3) f] 3
    by simp
  then show ?thesis
    by (simp add: injectDoc_def)
qed

lemma ct_start: "convertTimestamp ''2024-01-01T00:00:00Z'' 0 = Inr ''2024-01-01T00:00:00Z''"
  by code_simp

lemma ct_end:
  "convertTimestamp ''2024-01-01T00:00:00Z'' (60 * Second) = Inr ''2024-01-01T00:01:00Z''"
  by code_simp

lemma handed_60000: "handedDuration 60000 = 60 * Second"
  by (simp add: handedDuration_def wrap64_def go_div_def Second_def)

lemma Itoa_60: "Itoa 60 = ''60''"
  by (simp add: Itoa_def decimal.simps)

lemma swimLap_example:
  "swimLap fmtFrac ''2024-01-01T00:00:00Z'' (60 * Second) ''1000'' calories =
     Element [] ''Lap'' [Attr [] ''StartTime'' ''2024-01-01T00:00:00Z'']
       [Element [] ''TotalTimeSeconds'' [] [CharData ''60''],
        Element [] ''DistanceMeters'' [] [CharData ''1000''],
        textElement ''Calories'' calories,
        Element [] ''Intensity'' [] [CharData ''Active''],
        Element [] ''TriggerMethod'' [] [CharData ''Manual''],
        Element [] ''Track'' []
          [Element [] ''Trackpoint'' []
             [Element [] ''Time'' [] [CharData ''2024-01-01T00:00:00Z''],
              Element [] ''DistanceMeters'' [] [CharData ''0'']],
           Element [] ''Trackpoint'' []
             [Element [] ''Time'' [] [CharData ''2024-01-01T00:01:00Z''],
              Element [] ''DistanceMeters'' [] [CharData ''1000'']]]]"
proof -
  have t: "textElement ''TotalTimeSeconds'' ''60'' = Element [] ''TotalTimeSeconds'' [] [CharData ''60'']"
    "textElement ''DistanceMeters'' ''1000'' = Element [] ''DistanceMeters'' [] [CharData ''1000'']"
    "textElement ''Time'' ''2024-01-01T00:00:00Z''
       = Element [] ''Time'' [] [CharData ''2024-01-01T00:00:00Z'']"
    "textElement ''Time'' ''2024-01-01T00:01:00Z''
       = Element [] ''Time'' [] [CharData ''2024-01-01T00:01:00Z'']"
    by (simp_all add: textElement_plain)
  show ?thesis
    unfolding swimLap_shape ct_start ct_end secondsText_whole Itoa_60
    by (simp add: dropError_def t)
qed

lemma swimLap_unparsed:
  assumes "time_Parse idText = None"
  shows "swimLap fmtFrac idText totalTime distMeters calories =
     Element [] ''Lap'' [Attr [] ''StartTime'' []]
       [textElement ''TotalTimeSeconds'' (secondsText fmtFrac totalTime),
        textElement ''DistanceMeters'' distMeters,
        textElement ''Calories'' calories,
        Element [] ''Intensity'' [] [CharData ''Active''],
        Element [] ''TriggerMethod'' [] [CharData ''Manual''],
        Element [] ''Track'' []
          [Element [] ''Trackpoint'' []
             [Element [] ''Time'' [] [], Element [] ''DistanceMeters'' [] [CharData ''0'']],
           Element [] ''Trackpoint'' []
             [Element [] ''Time'' [] [], textElement ''DistanceMeters'' distMeters]]]"
proof -
  have c: "\<And>d. convertTimestamp idText d = Inl ParseError"
    using assms by (simp add: convertTimestamp_def)
  have t: "textElement ''Time'' [] = Element [] ''Time'' [] []"
    by (simp add: textElement_plain)
  show ?thesis
    unfolding swimLap_shape c
    by (simp add: dropError_def t)
qed

text \<open>
  C6. For the category \<open>Treadmill\<close> or \<open>Weights\<close>: when the document has the
  chain \<open>TrainingCenterDatabase / Activities / Activity / Creator\<close>, the result is the
  document with one \<open>Name\<close> element, holding \<open>Fitbit\<close>, appended to the children of
  that \<open>Creator\<close> element; the number of \<open>Name\<close> elements grows by one and the number
  of elements of every other tag, \<open>Lap\<close>, \<open>Track\<close> and \<open>Trackpoint\<close> among them, is
  unchanged. Without the chain the method call on the nil pointer panics and nothing is
  produced.
\<close>

theorem injectDoc_device_name:
  "actName = ''Treadmill'' \<or> actName = ''Weights'' \<Longrightarrow>
   (selectCreator xmlDoc = None \<longrightarrow>
      injectDoc fmtFrac xmlDoc actName totalTime distMeters calories = Inl NilPointer)
   \<and> (selectCreator (Element sp t as ch) = Some cr \<longrightarrow>
        (let doc' = onElement ''TrainingCenterDatabase''
                      (onElement ''Activities''
                         (onElement ''Activity''
                            (onElement ''Creator''
                               (AddChild (Element [] ''Name'' [] [CharData ''Fitbit''])))))
                      (Element sp t as ch)
         in injectDoc fmtFrac (Element sp t as ch) actName totalTime distMeters calories = Inr doc'
            \<and> selectCreator doc' = Some (AddChild (Element [] ''Name'' [] [CharData ''Fitbit'']) cr)
            \<and> countTag ''Name'' doc' = countTag ''Name'' (Element sp t as ch) + 1
            \<and> countTag ''Lap'' doc' = countTag ''Lap'' (Element sp t as ch)
            \<and> countTag ''Track'' doc' = countTag ''Track'' (Element sp t as ch)
            \<and> (tg \<noteq> ''Name'' \<longrightarrow> countTag tg doc' = countTag tg (Element sp t as ch))))"
proof -
  assume a: "actName = ''Treadmill'' \<or> actName = ''Weights''"
  then have i: "\<And>d. injectDoc fmtFrac d actName totalTime distMeters calories
      = onActivity deviceName d"
    by (auto simp: injectDoc_def)
  have n: "selectCreator xmlDoc = None \<longrightarrow>
      injectDoc fmtFrac xmlDoc actName totalTime distMeters calories = Inl NilPointer"
    by (simp add: i selectCreator_None)
  have p: "selectCreator (Element sp t as ch) = Some cr \<longrightarrow>
        (let doc' = onElement ''TrainingCenterDatabase''
                      (onElement ''Activities''
                         (onElement ''Activity''
                            (onElement ''Creator''
                               (AddChild (Element [] ''Name'' [] [CharData ''Fitbit''])))))
                      (Element sp t as ch)
         in injectDoc fmtFrac (Element sp t as ch) actName totalTime distMeters calories = Inr doc'
            \<and> selectCreator doc' = Some (AddChild (Element [] ''Name'' [] [CharData ''Fitbit'']) cr)
            \<and> countTag ''Name'' doc' = countTag ''Name'' (Element sp t as ch) + 1
            \<and> countTag ''Lap'' doc' = countTag ''Lap'' (Element sp t as ch)
            \<and> countTag ''Track'' doc' = countTag ''Track'' (Element sp t as ch)
            \<and> (tg \<noteq> ''Name'' \<longrightarrow> countTag tg doc' = countTag tg (Element sp t as ch)))"
  proof
    assume "selectCreator (Element sp t as ch) = Some cr"
    then obtain tcd acts act where
      s: "SelectElement ''TrainingCenterDatabase'' (Element sp t as ch) = Some tcd"
      "SelectElement ''Activities'' tcd = Some acts" "SelectElement ''Activity'' acts = Some act"
      "SelectElement ''Creator'' act = Some cr"
      by (rule selectCreator_Some)
    show "let doc' = onElement ''TrainingCenterDatabase''
                      (onElement ''Activities''
                         (onElement ''Activity''
                            (onElement ''Creator''
                               (AddChild (Element [] ''Name'' [] [CharData ''Fitbit''])))))
                      (Element sp t as ch)
         in injectDoc fmtFrac (Element sp t as ch) actName totalTime distMeters calories = Inr doc'
            \<and> selectCreator doc' = Some (AddChild (Element [] ''Name'' [] [CharData ''Fitbit'']) cr)
            \<and> countTag ''Name'' doc' = countTag ''Name'' (Element sp t as ch) + 1
            \<and> countTag ''Lap'' doc' = countTag ''Lap'' (Element sp t as ch)
            \<and> countTag ''Track'' doc' = countTag ''Track'' (Element sp t as ch)
            \<and> (tg \<noteq> ''Name'' \<longrightarrow> countTag tg doc' = countTag tg (Element sp t as ch))"
      unfolding Let_def i
      using device_path [OF s] device_select [OF s] device_count [OF s, of "''Name''"]
        device_count [OF s, of "''Lap''"] device_count [OF s, of "''Track''"]
        device_count [OF s, of tg]
      by simp
  qed
  from n p show ?thesis ..
qed

lemma example_selectCreator:
  "selectCreator (exampleDoc ''2024-01-01T00:00:00Z'') =
     Some (Element [] ''Creator'' [Attr ''xsi'' ''type'' ''Device_t'']
             [Element [] ''UnitId'' [] [CharData ''0''],
              Element [] ''ProductID'' [] [CharData ''0'']])"
  by code_simp

lemma example_device_doc:
  "onElement ''TrainingCenterDatabase''
     (onElement ''Activities''
        (onElement ''Activity''
           (onElement ''Creator'' (AddChild (Element [] ''Name'' [] [CharData ''Fitbit''])))))
     (exampleDoc ''2024-01-01T00:00:00Z'') =
   Element [] [] []
     [ProcInst ''xml'' ''version=1.0'',
      Element [] ''TrainingCenterDatabase''
        [Attr [] ''xmlns'' ''http://www.garmin.com/xmlschemas/TrainingCenterDatabase/v2'']
        [Element [] ''Activities'' []
           [Element [] ''Activity'' [Attr [] ''Sport'' ''Other'']
              [Element [] ''Id'' [] [CharData ''2024-01-01T00:00:00Z''],
               Element [] ''Creator'' [Attr ''xsi'' ''type'' ''Device_t'']
                 [Element [] ''UnitId'' [] [CharData ''0''],
                  Element [] ''ProductID'' [] [CharData ''0''],
                  Element [] ''Name'' [] [CharData ''Fitbit'']]]]]]"
  by code_simp

theorem injectDoc_device_name_witness:
  "injectDoc Itoa (exampleDoc ''2024-01-01T00:00:00Z'') ''Weights'' (60 * Second) ''1000'' ''250'' =
     Inr (Element [] [] []
       [ProcInst ''xml'' ''version=1.0'',
        Element [] ''TrainingCenterDatabase''
          [Attr [] ''xmlns'' ''http://www.garmin.com/xmlschemas/TrainingCenterDatabase/v2'']
          [Element [] ''Activities'' []
             [Element [] ''Activity'' [Attr [] ''Sport'' ''Other'']
                [Element [] ''Id'' [] [CharData ''2024-01-01T00:00:00Z''],
                 Element [] ''Creator'' [Attr ''xsi'' ''type'' ''Device_t'']
                   [Element [] ''UnitId'' [] [CharData ''0''],
                    Element [] ''ProductID'' [] [CharData ''0''],
                    Element [] ''Name'' [] [CharData ''Fitbit'']]]]]])
   \<and> injectDoc Itoa (Element [] [] [] []) ''Treadmill'' (60 * Second) ''1000'' ''250''
       = Inl NilPointer"
proof
  have w: "''Weights'' = ''Treadmill'' \<or> ''Weights'' = ''Weights''"
    by simp
  have e: "exampleDoc ''2024-01-01T00:00:00Z'' =
      Element [] [] []
       [ProcInst ''xml'' ''version=1.0'',
        Element [] ''TrainingCenterDatabase''
          [Attr [] ''xmlns'' ''http://www.garmin.com/xmlschemas/TrainingCenterDatabase/v2'']
          [Element [] ''Activities'' [] [exampleActivity ''2024-01-01T00:00:00Z'']]]"
    by (simp add: exampleDoc_def)
  from injectDoc_device_name [OF w, THEN conjunct2, rule_format,
      OF example_selectCreator [unfolded e]]
  show "injectDoc Itoa (exampleDoc ''2024-01-01T00:00:00Z'') ''Weights'' (60 * Second) ''1000'' ''250'' =
     Inr (Element [] [] []
       [ProcInst ''xml'' ''version=1.0'',
        Element [] ''TrainingCenterDatabase''
          [Attr [] ''xmlns'' ''http://www.garmin.com/xmlschemas/TrainingCenterDatabase/v2'']
          [Element [] ''Activities'' []
             [Element [] ''Activity'' [Attr [] ''Sport'' ''Other'']
                [Element [] ''Id'' [] [CharData ''2024-01-01T00:00:00Z''],
                 Element [] ''Creator'' [Attr ''xsi'' ''type'' ''Device_t'']
                   [Element [] ''UnitId'' [] [CharData ''0''],
                    Element [] ''ProductID'' [] [CharData ''0''],
                    Element [] ''Name'' [] [CharData ''Fitbit'']]]]]])"
    unfolding Let_def e [symmetric] example_device_doc by blast
next
  have t: "''Treadmill'' = ''Treadmill'' \<or> ''Treadmill'' = ''Weights''"
    by simp
  have n: "selectCreator (Element [] [] [] []) = None"
    by code_simp
  from injectDoc_device_name [OF t, THEN conjunct1, rule_format, OF n]
  show "injectDoc Itoa (Element [] [] [] []) ''Treadmill'' (60 * Second) ''1000'' ''250''
       = Inl NilPointer" .
qed

text \<open>
  C5. A Swim transformation with a duration of 60000 ms (handed over as 60 s), the
  distance text \<open>1000\<close> and the identifier \<open>2024-01-01T00:00:00Z\<close>, on any document
  that has the activity with its \<open>Sport\<close> attribute, \<open>Id\<close> and \<open>Creator\<close>: the
  activity gets, as its last child, a \<open>Lap\<close> with \<open>StartTime\<close>
  \<open>2024-01-01T00:00:00Z\<close> whose \<open>Track\<close> holds exactly two \<open>Trackpoint\<close> elements,
  with \<open>Time\<close> \<open>2024-01-01T00:00:00Z\<close> and \<open>2024-01-01T00:01:00Z\<close> and
  \<open>DistanceMeters\<close> \<open>0\<close> and \<open>1000\<close>.
\<close>

theorem injectDoc_swim_example:
  assumes "SelectElement ''TrainingCenterDatabase'' xmlDoc = Some tcd"
    and "SelectElement ''Activities'' tcd = Some acts"
    and "SelectElement ''Activity'' acts = Some root"
    and "SelectAttr ''Sport'' root = Some a"
    and "SelectElement ''Id'' root = Some idEl"
    and "Text idEl = ''2024-01-01T00:00:00Z''"
    and "SelectElement ''Creator'' root = Some cr"
  shows "handedDuration 60000 = 60 * Second
    \<and> injectDoc fmtFrac xmlDoc ''Swim'' (handedDuration 60000) ''1000'' calories =
     Inr (onElement ''TrainingCenterDatabase''
            (onElement ''Activities''
               (onElement ''Activity''
                  (\<lambda>r. AddChild
                     (Element [] ''Lap'' [Attr [] ''StartTime'' ''2024-01-01T00:00:00Z'']
                        [Element [] ''TotalTimeSeconds'' [] [CharData ''60''],
                         Element [] ''DistanceMeters'' [] [CharData ''1000''],
                         textElement ''Calories'' calories,
                         Element [] ''Intensity'' [] [CharData ''Active''],
                         Element [] ''TriggerMethod'' [] [CharData ''Manual''],
                         Element [] ''Track'' []
                           [Element [] ''Trackpoint'' []
                              [Element [] ''Time'' [] [CharData ''2024-01-01T00:00:00Z''],
                               Element [] ''DistanceMeters'' [] [CharData ''0'']],
                            Element [] ''Trackpoint'' []
                              [Element [] ''Time'' [] [CharData ''2024-01-01T00:01:00Z''],
                               Element [] ''DistanceMeters'' [] [CharData ''1000'']]]])
                     (onElement ''Creator''
                        (AddChild (Element [] ''Name'' [] [CharData ''Fitbit'']))
                        (setAttrValue ''Sport'' ''Swim'' r))))) xmlDoc)"
  using swim_path [OF assms(1-5) assms(7), of fmtFrac "60 * Second" "''1000''" calories]
  by (simp add: handed_60000 assms(6) swimLap_example)

lemma example_path:
  "SelectElement ''TrainingCenterDatabase'' (exampleDoc idText)
     = Some (Element [] ''TrainingCenterDatabase''
          [Attr [] ''xmlns'' ''http://www.garmin.com/xmlschemas/TrainingCenterDatabase/v2'']
          [Element [] ''Activities'' [] [exampleActivity idText]])"
  "SelectElement ''Activities'' (Element [] ''TrainingCenterDatabase''
          [Attr [] ''xmlns'' ''http://www.garmin.com/xmlschemas/TrainingCenterDatabase/v2'']
          [Element [] ''Activities'' [] [exampleActivity idText]])
     = Some (Element [] ''Activities'' [] [exampleActivity idText])"
  "SelectElement ''Activity'' (Element [] ''Activities'' [] [exampleActivity idText])
     = Some (exampleActivity idText)"
  "SelectAttr ''Sport'' (exampleActivity idText) = Some (Attr [] ''Sport'' ''Other'')"
  "SelectElement ''Id'' (exampleActivity idText) = Some (Element [] ''Id'' [] [CharData idText])"
  "Text (Element [] ''Id'' [] [CharData idText]) = idText"
  "SelectElement ''Creator'' (exampleActivity idText)
     = Some (Element [] ''Creator'' [Attr ''xsi'' ''type'' ''Device_t'']
          [Element [] ''UnitId'' [] [CharData ''0''],
           Element [] ''ProductID'' [] [CharData ''0'']])"
  by (simp_all add: SelectElement_def SelectAttr_def exampleDoc_def exampleActivity_def
      isTag_def isKey_def plain_tag spaceMatch_def Text_def)

lemma example_swim_doc:
  "onElement ''TrainingCenterDatabase''
     (onElement ''Activities''
        (onElement ''Activity''
           (\<lambda>r. AddChild lap
              (onElement ''Creator'' (AddChild (Element [] ''Name'' [] [CharData ''Fitbit'']))
                 (setAttrValue ''Sport'' ''Swim'' r)))))
     (exampleDoc idText) =
   Element [] [] []
     [ProcInst ''xml'' ''version=1.0'',
      Element [] ''TrainingCenterDatabase''
        [Attr [] ''xmlns'' ''http://www.garmin.com/xmlschemas/TrainingCenterDatabase/v2'']
        [Element [] ''Activities'' []
           [Element [] ''Activity'' [Attr [] ''Sport'' ''Swim'']
              [Element [] ''Id'' [] [CharData idText],
               Element [] ''Creator'' [Attr ''xsi'' ''type'' ''Device_t'']
                 [Element [] ''UnitId'' [] [CharData ''0''],
                  Element [] ''ProductID'' [] [CharData ''0''],
                  Element [] ''Name'' [] [CharData ''Fitbit'']],
               lap]]]]"
  by (simp add: onElement_def exampleDoc_def exampleActivity_def isTag_def isKey_def plain_tag
      spaceMatch_def AddChild_def setAttrValue_def)

theorem injectDoc_swim_example_witness:
  "injectDoc Itoa (exampleDoc ''2024-01-01T00:00:00Z'') ''Swim'' (handedDuration 60000)
     ''1000'' ''250'' =
   Inr (Element [] [] []
     [ProcInst ''xml'' ''version=1.0'',
      Element [] ''TrainingCenterDatabase''
        [Attr [] ''xmlns'' ''http://www.garmin.com/xmlschemas/TrainingCenterDatabase/v2'']
        [Element [] ''Activities'' []
           [Element [] ''Activity'' [Attr [] ''Sport'' ''Swim'']
              [Element [] ''Id'' [] [CharData ''2024-01-01T00:00:00Z''],
               Element [] ''Creator'' [Attr ''xsi'' ''type'' ''Device_t'']
                 [Element [] ''UnitId'' [] [CharData ''0''],
                  Element [] ''ProductID'' [] [CharData ''0''],
                  Element [] ''Name'' [] [CharData ''Fitbit'']],
               Element [] ''Lap'' [Attr [] ''StartTime'' ''2024-01-01T00:00:00Z'']
                 [Element [] ''TotalTimeSeconds'' [] [CharData ''60''],
                  Element [] ''DistanceMeters'' [] [CharData ''1000''],
                  Element [] ''Calories'' [] [CharData ''250''],
                  Element [] ''Intensity'' [] [CharData ''Active''],
                  Element [] ''TriggerMethod'' [] [CharData ''Manual''],
                  Element [] ''Track'' []
                    [Element [] ''Trackpoint'' []
                       [Element [] ''Time'' [] [CharData ''2024-01-01T00:00:00Z''],
                        Element [] ''DistanceMeters'' [] [CharData ''0'']],
                     Element [] ''Trackpoint'' []
                       [Element [] ''Time'' [] [CharData ''2024-01-01T00:01:00Z''],
                        Element [] ''DistanceMeters'' [] [CharData ''1000'']]]]]]]])"
  using injectDoc_swim_example [OF example_path, of Itoa "''250''", THEN conjunct2]
  unfolding example_swim_doc
  by (simp add: textElement_plain)

lemma injectActivityTcx_doc:
  "injectActivityTcx f n x a t d c = Inr (doc, ev) \<Longrightarrow> injectDoc f x a t d c = Inr doc"
  by (auto simp: injectActivityTcx_def split: sum.splits)

lemma parse_yesterday: "time_Parse ''yesterday'' = None"
  by code_simp

text \<open>
  C4, as the code has it. When the identifier of a Swim activity does not parse,
  \<open>convertTimestamp\<close> fails with the parse error for every duration, but
  \<open>injectActivityTcx\<close> drops that error both times and does not fail: the \<open>Lap\<close> is
  added with an empty \<open>StartTime\<close>, both \<open>Time\<close> elements are added without text, and
  the document is printed, saved and the listener shut down as for any other run.
\<close>

theorem injectActivityTcx_swim_unparsed:
  assumes "SelectElement ''TrainingCenterDatabase'' xmlDoc = Some tcd"
    and "SelectElement ''Activities'' tcd = Some acts"
    and "SelectElement ''Activity'' acts = Some root"
    and "SelectAttr ''Sport'' root = Some a"
    and "SelectElement ''Id'' root = Some idEl"
    and "SelectElement ''Creator'' root = Some cr"
    and "time_Parse (Text idEl) = None"
  shows "convertTimestamp (Text idEl) 0 = Inl ParseError
    \<and> convertTimestamp (Text idEl) totalTime = Inl ParseError
    \<and> (let doc' =
          onElement ''TrainingCenterDatabase''
            (onElement ''Activities''
               (onElement ''Activity''
                  (\<lambda>r. AddChild
                     (Element [] ''Lap'' [Attr [] ''StartTime'' []]
                        [textElement ''TotalTimeSeconds'' (secondsText fmtFrac totalTime),
                         textElement ''DistanceMeters'' distMeters,
                         textElement ''Calories'' calories,
                         Element [] ''Intensity'' [] [CharData ''Active''],
                         Element [] ''TriggerMethod'' [] [CharData ''Manual''],
                         Element [] ''Track'' []
                           [Element [] ''Trackpoint'' []
                              [Element [] ''Time'' [] [],
                               Element [] ''DistanceMeters'' [] [CharData ''0'']],
                            Element [] ''Trackpoint'' []
                              [Element [] ''Time'' [] [],
                               textElement ''DistanceMeters'' distMeters]]])
                     (onElement ''Creator''
                        (AddChild (Element [] ''Name'' [] [CharData ''Fitbit'']))
                        (setAttrValue ''Sport'' ''Swim'' r))))) xmlDoc
        in injectActivityTcx fmtFrac fName xmlDoc ''Swim'' totalTime distMeters calories
             = Inr (doc', [PrintDoc doc', SaveToFile (fName @ ''.tcx'') doc', Shutdown]))"
proof -
  have c: "\<And>d. convertTimestamp (Text idEl) d = Inl ParseError"
    using assms(7) by (simp add: convertTimestamp_def)
  show ?thesis
    using swim_path [OF assms(1-6), of fmtFrac totalTime distMeters calories]
    by (simp add: c injectActivityTcx_def swimLap_unparsed [OF assms(7)] Let_def)
qed

lemma example_unparsed:
  "injectDoc Itoa (exampleDoc ''yesterday'') ''Swim'' (60 * Second) ''1000'' ''250'' =
   Inr (Element [] [] []
     [ProcInst ''xml'' ''version=1.0'',
      Element [] ''TrainingCenterDatabase''
        [Attr [] ''xmlns'' ''http://www.garmin.com/xmlschemas/TrainingCenterDatabase/v2'']
        [Element [] ''Activities'' []
           [Element [] ''Activity'' [Attr [] ''Sport'' ''Swim'']
              [Element [] ''Id'' [] [CharData ''yesterday''],
               Element [] ''Creator'' [Attr ''xsi'' ''type'' ''Device_t'']
                 [Element [] ''UnitId'' [] [CharData ''0''],
                  Element [] ''ProductID'' [] [CharData ''0''],
                  Element [] ''Name'' [] [CharData ''Fitbit'']],
               Element [] ''Lap'' [Attr [] ''StartTime'' []]
                 [Element [] ''TotalTimeSeconds'' [] [CharData ''60''],
                  Element [] ''DistanceMeters'' [] [CharData ''1000''],
                  Element [] ''Calories'' [] [CharData ''250''],
                  Element [] ''Intensity'' [] [CharData ''Active''],
                  Element [] ''TriggerMethod'' [] [CharData ''Manual''],
                  Element [] ''Track'' []
                    [Element [] ''Trackpoint'' []
                       [Element [] ''Time'' [] [],
                        Element [] ''DistanceMeters'' [] [CharData ''0'']],
                     Element [] ''Trackpoint'' []
                       [Element [] ''Time'' [] [],
                        Element [] ''DistanceMeters'' [] [CharData ''1000'']]]]]]]])"
  by code_simp

theorem injectActivityTcx_swim_unparsed_witness:
  "convertTimestamp ''yesterday'' (60 * Second) = Inl ParseError
   \<and> injectActivityTcx Itoa ''Swim-1'' (exampleDoc ''yesterday'') ''Swim'' (60 * Second)
        ''1000'' ''250'' =
      Inr (projr (injectDoc Itoa (exampleDoc ''yesterday'') ''Swim'' (60 * Second) ''1000'' ''250''),
           [PrintDoc (projr (injectDoc Itoa (exampleDoc ''yesterday'') ''Swim'' (60 * Second)
                               ''1000'' ''250'')),
            SaveToFile ''Swim-1.tcx''
              (projr (injectDoc Itoa (exampleDoc ''yesterday'') ''Swim'' (60 * Second)
                        ''1000'' ''250'')),
            Shutdown])"
proof -
  have p: "time_Parse (Text (Element [] ''Id'' [] [CharData ''yesterday''])) = None"
    by (simp add: Text_def parse_yesterday)
  from injectActivityTcx_swim_unparsed
    [OF example_path(1-5) example_path(7) p, of "60 * Second" Itoa "''1000''" "''250''" "''Swim-1''"]
  obtain doc where
    c: "convertTimestamp (Text (Element [] ''Id'' [] [CharData ''yesterday''])) (60 * Second)
      = Inl ParseError"
    and t: "injectActivityTcx Itoa ''Swim-1'' (exampleDoc ''yesterday'') ''Swim'' (60 * Second)
        ''1000'' ''250''
      = Inr (doc, [PrintDoc doc, SaveToFile (''Swim-1'' @ ''.tcx'') doc, Shutdown])"
    unfolding Let_def by blast
  have "injectDoc Itoa (exampleDoc ''yesterday'') ''Swim'' (60 * Second) ''1000'' ''250'' = Inr doc"
    using t by (rule injectActivityTcx_doc)
  with c t show ?thesis
    by (simp add: Text_def)
qed

text \<open>
  The claim as it stands fails: with the identifier \<open>yesterday\<close> the transformation
  returns no error; it returns the document with the empty timestamps and goes on to
  print, save and shut down.
\<close>

theorem injectActivityTcx_ignores_parse_error:
  "time_Parse ''yesterday'' = None
   \<and> convertTimestamp ''yesterday'' 0 = Inl ParseError
   \<and> injectActivityTcx Itoa ''Swim-1'' (exampleDoc ''yesterday'') ''Swim'' (60 * Second)
        ''1000'' ''250'' \<noteq> Inl ParseError
   \<and> map_sum id snd
        (injectActivityTcx Itoa ''Swim-1'' (exampleDoc ''yesterday'') ''Swim'' (60 * Second)
           ''1000'' ''250'') =
      Inr [PrintDoc (projr (injectDoc Itoa (exampleDoc ''yesterday'') ''Swim'' (60 * Second)
                              ''1000'' ''250'')),
           SaveToFile ''Swim-1.tcx''
             (projr (injectDoc Itoa (exampleDoc ''yesterday'') ''Swim'' (60 * Second)
                       ''1000'' ''250'')),
           Shutdown]
   \<and> SelectAttr ''StartTime''
        (last (Child (the (selectActivity
           (projr (injectDoc Itoa (exampleDoc ''yesterday'') ''Swim'' (60 * Second)
                     ''1000'' ''250'')))))) = Some (Attr [] ''StartTime'' [])"
proof -
  have s: "selectActivity (Element [] [] []
     [ProcInst ''xml'' ''version=1.0'',
      Element [] ''TrainingCenterDatabase''
        [Attr [] ''xmlns'' ''http://www.garmin.com/xmlschemas/TrainingCenterDatabase/v2'']
        [Element [] ''Activities'' []
           [Element [] ''Activity'' as ch]]]) = Some (Element [] ''Activity'' as ch)" for as ch
    by (simp add: selectActivity_def SelectElement_def isTag_def plain_tag spaceMatch_def)
  show ?thesis
    by (simp add: parse_yesterday convertTimestamp_def injectActivityTcx_def example_unparsed
        s SelectAttr_def isKey_def plain_tag spaceMatch_def)
qed

subsection \<open>The duration handed to the transformer\<close>

text \<open>
  C10, as the code has it. The duration handed to the transformer is
  \<open>time.Duration(ms/1000) * time.Second\<close>, an \<open>int64\<close> product. For a millisecond
  duration between -9223372036999 and 9223372036999 (about 292 years) the product does
  not overflow: the handed duration is the whole number of seconds \<open>ms/1000\<close>, rounded
  towards zero, less than a second away from the activity's duration; the
  \<open>TotalTimeSeconds\<close> text, which the Swim branch puts into the element of that name,
  is that integer in decimal, without a decimal point; adding the duration to a time
  leaves the nanoseconds as they are. The text of every converted timestamp, for any
  duration, has no fraction separator.
\<close>

theorem handedDuration_whole_seconds:
  "- 9223372036999 \<le> ms \<Longrightarrow> ms \<le> 9223372036999 \<Longrightarrow>
     handedDuration ms = go_div ms 1000 * Second
     \<and> \<bar>ms - 1000 * go_div ms 1000\<bar> < 1000
     \<and> go_mod (handedDuration ms) Second = 0
     \<and> secondsText fmtFrac (handedDuration ms) = Itoa (go_div ms 1000)
     \<and> CHR ''.'' \<notin> set (secondsText fmtFrac (handedDuration ms))
     \<and> (0 \<le> nsec t \<and> nsec t < 1000000000 \<longrightarrow>
          time_Add t (handedDuration ms) = \<lparr>unixSec = unixSec t + go_div ms 1000, nsec = nsec t\<rparr>)
     \<and> (convertTimestamp ts (handedDuration ms) = Inr r \<longrightarrow>
          CHR ''.'' \<notin> set r \<and> CHR '','' \<notin> set r)
     \<and> transformChosen fmtFrac distMeters
          \<lparr>ActivityParentName = name, Calories = cal, Duration = ms, LogID = logId\<rparr> xml
        = injectActivityTcx fmtFrac (name @ ''-'' @ Itoa logId) xml name
            (go_div ms 1000 * Second) distMeters (Itoa cal)
     \<and> SelectElement ''TotalTimeSeconds''
          (swimLap fmtFrac idText (handedDuration ms) distMeters calories)
        = Some (textElement ''TotalTimeSeconds'' (Itoa (go_div ms 1000)))"
proof -
  assume a: "- 9223372036999 \<le> ms" "ms \<le> 9223372036999"
  have h: "handedDuration ms = go_div ms 1000 * Second"
    using a by (rule handedDuration_exact)
  have "CHR ''.'' \<notin> set (Itoa (go_div ms 1000))"
    using no_fraction [OF Itoa_chars] by blast
  moreover have "SelectElement ''TotalTimeSeconds''
          (swimLap fmtFrac idText (go_div ms 1000 * Second) distMeters calories)
        = Some (textElement ''TotalTimeSeconds'' (Itoa (go_div ms 1000)))"
    by (simp add: swimLap_shape SelectElement_def isTag_def textElement_plain plain_tag
        spaceMatch_def secondsText_whole)
  ultimately show ?thesis
    using go_div_1000_rest [of ms] convertTimestamp_no_fraction [of ts "handedDuration ms" r]
    by (simp add: h go_mod_whole secondsText_whole time_Add_whole transformChosen_def)
qed

theorem handedDuration_whole_seconds_witness:
  "handedDuration 61500 = 61 * Second
   \<and> secondsText (\<lambda>d. ''?'') (handedDuration 61500) = ''61''
   \<and> time_Add \<lparr>unixSec = 10, nsec = 5\<rparr> (handedDuration 61500) = \<lparr>unixSec = 71, nsec = 5\<rparr>
   \<and> convertTimestamp ''2024-01-01T00:00:00Z'' (handedDuration 61500) = Inr ''2024-01-01T00:01:01Z''"
proof -
  have g: "go_div 61500 1000 = 61"
    by (simp add: go_div_def)
  have i: "Itoa 61 = ''61''"
    by (simp add: Itoa_def decimal.simps)
  have h: "handedDuration 61500 = 61 * Second"
    using handedDuration_whole_seconds [of 61500] by (simp add: g)
  have c: "convertTimestamp ''2024-01-01T00:00:00Z'' (61 * Second) = Inr ''2024-01-01T00:01:01Z''"
    by code_simp
  show ?thesis
    using handedDuration_whole_seconds
            [of 61500 "\<lambda>d. ''?''" "\<lparr>unixSec = 10, nsec = 5\<rparr>" "''2024-01-01T00:00:00Z''"
               "''2024-01-01T00:01:01Z''"] c
    by (simp add: g i h)
qed

text \<open>
  The claim as it stands fails for a duration of 9223372037000 ms, which an \<open>int64\<close>
  holds: the product wraps around, and what is handed over is negative and not a whole
  number of seconds.
\<close>

theorem handedDuration_overflow:
  "int64 9223372037000
   \<and> handedDuration 9223372037000 = - 9223372036709551616
   \<and> handedDuration 9223372037000 \<noteq> go_div 9223372037000 1000 * Second
   \<and> go_mod (handedDuration 9223372037000) Second = - 709551616"
  by (simp add: int64_def handedDuration_def wrap64_def go_div_def go_mod_def Second_def)

end
